theory Spec2Isabelle
  imports Complex_Main
begin

section \<open>Exceptions\<close>

text \<open>
  Every failure of the scripts is a Python exception. The model keeps the classes the
  code distinguishes: \<open>requests.exceptions.RequestException\<close> (the only class
  \<open>get_public_ip\<close> catches), the errors raised by the interpreter itself
  (\<open>KeyError\<close>, \<open>IndexError\<close>, \<open>UnboundLocalError\<close>, \<open>TypeError\<close>), the plain
  \<open>Exception\<close> raised by \<open>init\<close>, and the errors of the libraries
  (botocore's \<open>ClientError\<close> with its error code, psycopg2's database errors,
  \<open>OSError\<close>). All of them are subclasses of \<open>Exception\<close>, so a clause
  \<open>except Exception\<close> catches each of them.
\<close>

datatype exn =
    ClientError string
  | RequestException string
  | KeyError string
  | IndexError
  | UnboundLocalError string
  | TypeError string
  | PyException string
  | DatabaseError string
  | OSError string

section \<open>sql_queries.py: the statement lists\<close>

datatype table = staging_events | staging_songs | songplays | users | songs | artists | time

text \<open>
  A statement is kept as its kind and the table it names; the \<open>COPY\<close> statements
  also keep the values that \<open>str.format\<close> fills in from the configuration
  (source path, role ARN, and the JSON option: a jsonpath file or \<open>'auto'\<close>).
\<close>

datatype query =
    DropTableIfExists table
  | CreateTableIfNotExists table
  | Copy table string string string
  | InsertInto table

record s3_config =
  LOG_DATA :: string
  LOG_JSONPATH :: string
  SONG_DATA :: string
  IAM_ROLE_ARN :: string

definition staging_events_table_drop :: query where
  "staging_events_table_drop = DropTableIfExists staging_events"
definition staging_songs_table_drop :: query where
  "staging_songs_table_drop = DropTableIfExists staging_songs"
definition songplay_table_drop :: query where
  "songplay_table_drop = DropTableIfExists songplays"
definition user_table_drop :: query where
  "user_table_drop = DropTableIfExists users"
definition song_table_drop :: query where
  "song_table_drop = DropTableIfExists songs"
definition artist_table_drop :: query where
  "artist_table_drop = DropTableIfExists artists"
definition time_table_drop :: query where
  "time_table_drop = DropTableIfExists time"

definition staging_events_table_create :: query where
  "staging_events_table_create = CreateTableIfNotExists staging_events"
definition staging_songs_table_create :: query where
  "staging_songs_table_create = CreateTableIfNotExists staging_songs"
definition songplay_table_create :: query where
  "songplay_table_create = CreateTableIfNotExists songplays"
definition user_table_create :: query where
  "user_table_create = CreateTableIfNotExists users"
definition song_table_create :: query where
  "song_table_create = CreateTableIfNotExists songs"
definition artist_table_create :: query where
  "artist_table_create = CreateTableIfNotExists artists"
definition time_table_create :: query where
  "time_table_create = CreateTableIfNotExists time"

definition staging_events_copy :: "s3_config \<Rightarrow> query" where
  "staging_events_copy cfg =
     Copy staging_events (LOG_DATA cfg) (IAM_ROLE_ARN cfg) (LOG_JSONPATH cfg)"
definition staging_songs_copy :: "s3_config \<Rightarrow> query" where
  "staging_songs_copy cfg =
     Copy staging_songs (SONG_DATA cfg) (IAM_ROLE_ARN cfg) ''auto''"

definition songplay_table_insert :: query where
  "songplay_table_insert = InsertInto songplays"
definition user_table_insert :: query where
  "user_table_insert = InsertInto users"
definition song_table_insert :: query where
  "song_table_insert = InsertInto songs"
definition artist_table_insert :: query where
  "artist_table_insert = InsertInto artists"
definition time_table_insert :: query where
  "time_table_insert = InsertInto time"

definition create_table_queries :: "query list" where
  "create_table_queries =
     [staging_events_table_create, staging_songs_table_create, user_table_create,
      song_table_create, artist_table_create, time_table_create, songplay_table_create]"

definition drop_table_queries :: "query list" where
  "drop_table_queries =
     [staging_events_table_drop, staging_songs_table_drop, songplay_table_drop,
      user_table_drop, song_table_drop, artist_table_drop, time_table_drop]"

definition copy_table_queries :: "s3_config \<Rightarrow> query list" where
  "copy_table_queries cfg = [staging_events_copy cfg, staging_songs_copy cfg]"

definition insert_table_queries :: "query list" where
  "insert_table_queries =
     [songplay_table_insert, user_table_insert, song_table_insert,
      artist_table_insert, time_table_insert]"

section \<open>etl.py and create_tables.py: the runners\<close>

text \<open>
  \<open>for query in queries: cur.execute(query); conn.commit()\<close>. The cursor and the
  connection are the caller's: \<open>exec\<close> and \<open>commit\<close> act on the database
  behind the one connection and either raise or give its next state. The runner
  returns what it did on the connection, in order, and how it ended: \<open>Inl e\<close> when
  the exception \<open>e\<close> left the loop, \<open>Inr db\<close> when the loop ran to its end.
\<close>

datatype 'q db_event = Execute 'q | Commit

fun run_queries ::
  "('q \<Rightarrow> 'db \<Rightarrow> exn + 'db) \<Rightarrow> ('db \<Rightarrow> exn + 'db) \<Rightarrow> 'q list \<Rightarrow> 'db
     \<Rightarrow> 'q db_event list \<times> (exn + 'db)" where
  "run_queries exec commit [] db = ([], Inr db)"
| "run_queries exec commit (q # qs) db =
     (case exec q db of
        Inl e \<Rightarrow> ([Execute q], Inl e)
      | Inr db1 \<Rightarrow>
          (case commit db1 of
             Inl e \<Rightarrow> ([Execute q, Commit], Inl e)
           | Inr db2 \<Rightarrow>
               (case run_queries exec commit qs db2 of
                  (tr, r) \<Rightarrow> (Execute q # Commit # tr, r))))"

definition load_staging_tables ::
  "(query \<Rightarrow> 'db \<Rightarrow> exn + 'db) \<Rightarrow> ('db \<Rightarrow> exn + 'db) \<Rightarrow> s3_config \<Rightarrow> 'db
     \<Rightarrow> query db_event list \<times> (exn + 'db)" where
  "load_staging_tables exec commit cfg db = run_queries exec commit (copy_table_queries cfg) db"

definition insert_tables ::
  "(query \<Rightarrow> 'db \<Rightarrow> exn + 'db) \<Rightarrow> ('db \<Rightarrow> exn + 'db) \<Rightarrow> 'db
     \<Rightarrow> query db_event list \<times> (exn + 'db)" where
  "insert_tables exec commit db = run_queries exec commit insert_table_queries db"

definition drop_tables ::
  "(query \<Rightarrow> 'db \<Rightarrow> exn + 'db) \<Rightarrow> ('db \<Rightarrow> exn + 'db) \<Rightarrow> 'db
     \<Rightarrow> query db_event list \<times> (exn + 'db)" where
  "drop_tables exec commit db = run_queries exec commit drop_table_queries db"

definition create_tables ::
  "(query \<Rightarrow> 'db \<Rightarrow> exn + 'db) \<Rightarrow> ('db \<Rightarrow> exn + 'db) \<Rightarrow> 'db
     \<Rightarrow> query db_event list \<times> (exn + 'db)" where
  "create_tables exec commit db = run_queries exec commit create_table_queries db"

section \<open>Reading a run of statements\<close>

text \<open>
  The database after each statement of a list has been executed and committed in turn,
  starting from \<open>db\<close>; \<open>None\<close> when an execution or a commit among them fails.
\<close>

fun committed ::
  "('q \<Rightarrow> 'db \<Rightarrow> exn + 'db) \<Rightarrow> ('db \<Rightarrow> exn + 'db) \<Rightarrow> 'q list \<Rightarrow> 'db \<Rightarrow> 'db option" where
  "committed exec commit [] db = Some db"
| "committed exec commit (q # qs) db =
     (case exec q db of
        Inl e \<Rightarrow> None
      | Inr db1 \<Rightarrow> (case commit db1 of Inl e \<Rightarrow> None | Inr db2 \<Rightarrow> committed exec commit qs db2))"

text \<open>The statements that a run executed, in order, commits left out.\<close>

fun executed :: "'q db_event list \<Rightarrow> 'q list" where
  "executed [] = []"
| "executed (Execute q # tr) = q # executed tr"
| "executed (Commit # tr) = executed tr"

section \<open>sql_queries.py: what the songplays insert selects\<close>

text \<open>
  The rows of the two staging tables, with the columns that
  \<open>songplay_table_insert\<close> reads. Every column is nullable (\<open>None\<close> is SQL's
  \<open>NULL\<close>); \<open>VARCHAR\<close> is a string, \<open>INT\<close> and \<open>BIGINT\<close> an integer,
  \<open>NUMERIC\<close> an exact decimal (a rational), \<open>TIMESTAMP\<close> a point on an integer
  time line.
\<close>

record staging_events_row =
  e_artist :: "string option"
  e_length :: "rat option"
  e_level :: "string option"
  e_location :: "string option"
  e_sessionId :: "int option"
  e_song :: "string option"
  e_ts :: "int option"
  e_userAgent :: "string option"
  e_userId :: "int option"

record staging_songs_row =
  s_artist_id :: "string option"
  s_artist_name :: "string option"
  s_song_id :: "string option"
  s_title :: "string option"
  s_duration :: "rat option"

text \<open>
  A row of \<open>songplays\<close> as the statement supplies it; \<open>songplay_id\<close> is an
  \<open>IDENTITY\<close> column that the engine fills in.
\<close>

record songplay_row =
  start_time :: "int option"
  user_id :: "int option"
  level :: "string option"
  song_id :: "string option"
  artist_id :: "string option"
  session_id :: "int option"
  location :: "string option"
  user_agent :: "string option"

text \<open>SQL's \<open>=\<close> in a join condition: true only for two equal non-NULL values.\<close>

definition sql_eq :: "'a option \<Rightarrow> 'a option \<Rightarrow> bool" where
  "sql_eq a b = (case a of None \<Rightarrow> False | Some x \<Rightarrow> (case b of None \<Rightarrow> False | Some y \<Rightarrow> x = y))"

text \<open>
  \<open>ON e.artist = s.artist_name AND e.length = s.duration AND e.song = s.title\<close>
\<close>

definition songplay_join_on :: "staging_events_row \<Rightarrow> staging_songs_row \<Rightarrow> bool" where
  "songplay_join_on e s \<longleftrightarrow>
     sql_eq (e_artist e) (s_artist_name s) \<and> sql_eq (e_length e) (s_duration s)
     \<and> sql_eq (e_song e) (s_title s)"

text \<open>\<open>FROM staging_events e JOIN staging_songs s ON ...\<close>: the pairs that satisfy the condition.\<close>

definition songplay_join ::
  "staging_events_row list \<Rightarrow> staging_songs_row list \<Rightarrow> (staging_events_row \<times> staging_songs_row) list" where
  "songplay_join es ss = concat (map (\<lambda>e. map (\<lambda>s. (e, s)) (filter (songplay_join_on e) ss)) es)"

text \<open>The \<open>SELECT\<close> list.\<close>

definition songplay_select :: "staging_events_row \<times> staging_songs_row \<Rightarrow> songplay_row" where
  "songplay_select p = (case p of (e, s) \<Rightarrow>
     \<lparr>start_time = e_ts e, user_id = e_userId e, level = e_level e, song_id = s_song_id s,
      artist_id = s_artist_id s, session_id = e_sessionId e, location = e_location e,
      user_agent = e_userAgent e\<rparr>)"

text \<open>
  What \<open>songplay_table_create\<close> declares and Redshift enforces on an inserted row:
  \<open>start_time\<close>, \<open>user_id\<close> and \<open>level\<close> are \<open>NOT NULL\<close>, \<open>level\<close> is
  \<open>VARCHAR (4)\<close>, \<open>session_id\<close> is a 32-bit \<open>INT\<close>. (\<open>PRIMARY KEY\<close> and
  \<open>REFERENCES\<close> are informational in Redshift and reject nothing.)
\<close>

definition songplay_row_ok :: "songplay_row \<Rightarrow> bool" where
  "songplay_row_ok r \<longleftrightarrow>
     start_time r \<noteq> None \<and> user_id r \<noteq> None
     \<and> (case level r of None \<Rightarrow> False | Some l \<Rightarrow> length l \<le> 4)
     \<and> (case session_id r of None \<Rightarrow> True | Some n \<Rightarrow> - (2 ^ 31) \<le> n \<and> n < 2 ^ 31)"

text \<open>
  The statement as a whole: it appends the selected rows to \<open>songplays\<close>, or fails
  and inserts nothing when one of them violates the table's declaration.
\<close>

definition songplay_insert ::
  "staging_events_row list \<Rightarrow> staging_songs_row list \<Rightarrow> songplay_row list \<Rightarrow> exn + songplay_row list" where
  "songplay_insert es ss sp =
     (let rows = map songplay_select (songplay_join es ss)
      in if list_all songplay_row_ok rows then Inr (sp @ rows)
         else Inl (DatabaseError ''songplays: row violates the table declaration''))"

text \<open>
  The warehouse behind the connection: the two staging tables, \<open>songplays\<close>, and the
  four dimension tables together as \<open>dims\<close>. Executing a statement: the songplays insert
  is the one above; an insert into a dimension table reads the warehouse and changes
  that table only (\<open>dim_insert\<close>, a parameter); any other statement is the
  parameter \<open>other\<close>. A commit changes no table.
\<close>

record 'd warehouse =
  wh_staging_events :: "staging_events_row list"
  wh_staging_songs :: "staging_songs_row list"
  wh_songplays :: "songplay_row list"
  wh_dims :: 'd

fun exec_query ::
  "(table \<Rightarrow> 'd warehouse \<Rightarrow> exn + 'd) \<Rightarrow> (query \<Rightarrow> 'd warehouse \<Rightarrow> exn + 'd warehouse)
     \<Rightarrow> query \<Rightarrow> 'd warehouse \<Rightarrow> exn + 'd warehouse" where
  "exec_query dim_insert other (InsertInto t) wh =
     (if t = songplays then
        (case songplay_insert (wh_staging_events wh) (wh_staging_songs wh) (wh_songplays wh) of
           Inl e \<Rightarrow> Inl e
         | Inr sp \<Rightarrow> Inr (wh\<lparr>wh_songplays := sp\<rparr>))
      else if t = users \<or> t = songs \<or> t = artists \<or> t = time then
        (case dim_insert t wh of
           Inl e \<Rightarrow> Inl e
         | Inr d \<Rightarrow> Inr (wh\<lparr>wh_dims := d\<rparr>))
      else other (InsertInto t) wh)"
| "exec_query dim_insert other q wh = other q wh"

definition wh_commit :: "'d warehouse \<Rightarrow> exn + 'd warehouse" where
  "wh_commit wh = Inr wh"

section \<open>redshift_iac.py: the provider, the trace and the state\<close>

text \<open>
  The responses of the provider, with the keys the code subscripts. A key that a
  response may lack is an option: subscripting it when it is \<open>None\<close> raises
  \<open>KeyError\<close>. A response that the code only prints or drops is a \<open>response\<close>.
\<close>

datatype response = Response string

record response_metadata =
  HTTPStatusCode :: "int option"

record attach_role_policy_response =
  ResponseMetadata :: "response_metadata option"

record role =
  Arn :: "string option"

record get_role_response =
  Role :: "role option"

record create_security_group_response =
  GroupId :: "string option"

record cluster_endpoint =
  Address :: "string option"

record cluster =
  ClusterStatus :: "string option"
  Endpoint :: "cluster_endpoint option"

record describe_clusters_response =
  Clusters :: "cluster list option"

record http_response =
  status_code :: int
  response_text :: string

text \<open>The resource object \<open>ec2_resource.SecurityGroup(id)\<close>.\<close>

datatype security_group = SecurityGroup (sg_id: string)

text \<open>The keyword arguments of \<open>redshift.create_cluster\<close>.\<close>

record create_cluster_request =
  ClusterType :: string
  NodeType :: string
  NumberOfNodes :: int
  DBName :: string
  ClusterIdentifier :: string
  MasterUsername :: string
  MasterUserPassword :: string
  VpcSecurityGroupIds :: "string list"
  IamRoles :: "string list"

text \<open>
  What a run does that is visible outside the process, in order: what it prints (the
  pieces of each printed line), how long it sleeps, and each request it sends, with
  the arguments that are not constants of the code.
\<close>

datatype fragment = Text string | Exn exn | Resp response | SgObj security_group

datatype event =
    Print "fragment list"
  | Sleep nat
  | IamCreateRole string
  | IamAttachRolePolicy string string
  | IamGetRole string
  | IamDetachRolePolicy string string
  | IamDeleteRole string
  | Ec2CreateSecurityGroup string string
  | Ec2SecurityGroupsFilter string
  | SgGroupName security_group
  | SgAuthorizeIngress security_group string string string int int
  | SgDelete security_group string
  | RedshiftCreateCluster create_cluster_request
  | RedshiftDescribeClusters string
  | RedshiftDeleteCluster string bool
  | HttpGet string
  | ConfigSetItem string string string
  | ConfigWriteFile string

text \<open>
  The clients. Each operation is a request to the world outside (\<open>'w\<close>: the
  provider's account, the network, the configuration file): it raises or answers, and
  leaves the world in its next state. Nothing is assumed about how the provider
  answers.
\<close>

record 'w iam_client =
  iam_create_role :: "string \<Rightarrow> 'w \<Rightarrow> (exn + response) \<times> 'w"
  iam_attach_role_policy :: "string \<Rightarrow> string \<Rightarrow> 'w \<Rightarrow> (exn + attach_role_policy_response) \<times> 'w"
  iam_get_role :: "string \<Rightarrow> 'w \<Rightarrow> (exn + get_role_response) \<times> 'w"
  iam_detach_role_policy :: "string \<Rightarrow> string \<Rightarrow> 'w \<Rightarrow> (exn + response) \<times> 'w"
  iam_delete_role :: "string \<Rightarrow> 'w \<Rightarrow> (exn + response) \<times> 'w"

record 'w ec2_client =
  ec2_create_security_group :: "string \<Rightarrow> string \<Rightarrow> 'w \<Rightarrow> (exn + create_security_group_response) \<times> 'w"

record 'w ec2_resource =
  ec2_security_groups_filter :: "string \<Rightarrow> 'w \<Rightarrow> (exn + security_group list) \<times> 'w"
  sg_group_name :: "security_group \<Rightarrow> 'w \<Rightarrow> (exn + string) \<times> 'w"
  sg_authorize_ingress ::
    "security_group \<Rightarrow> string \<Rightarrow> string \<Rightarrow> string \<Rightarrow> int \<Rightarrow> int \<Rightarrow> 'w \<Rightarrow> (exn + response) \<times> 'w"
  sg_delete :: "security_group \<Rightarrow> string \<Rightarrow> 'w \<Rightarrow> (exn + response) \<times> 'w"

record 'w redshift_client =
  redshift_create_cluster :: "create_cluster_request \<Rightarrow> 'w \<Rightarrow> (exn + response) \<times> 'w"
  redshift_describe_clusters :: "string \<Rightarrow> 'w \<Rightarrow> (exn + describe_clusters_response) \<times> 'w"
  redshift_delete_cluster :: "string \<Rightarrow> bool \<Rightarrow> 'w \<Rightarrow> (exn + response) \<times> 'w"

text \<open>
  The globals of the module: the four clients, \<open>requests.get\<close>, the \<open>config\<close>
  object (assigning to \<open>config[section][key]\<close>, writing it to a file), and the
  constants read from \<open>dwh.cfg\<close> at import.
\<close>

record 'w globals =
  iam :: "'w iam_client"
  ec2_client :: "'w ec2_client"
  ec2_resource :: "'w ec2_resource"
  redshift :: "'w redshift_client"
  requests_get :: "string \<Rightarrow> 'w \<Rightarrow> (exn + http_response) \<times> 'w"
  config_setitem :: "string \<Rightarrow> string \<Rightarrow> string \<Rightarrow> 'w \<Rightarrow> (exn + unit) \<times> 'w"
  config_write_file :: "string \<Rightarrow> 'w \<Rightarrow> (exn + unit) \<times> 'w"
  CLUSTER_ID :: string
  DB_NAME :: string
  DB_USER :: string
  DB_PASSWORD :: string
  DB_PORT :: int

definition CONFIG_FILENAME :: string where
  "CONFIG_FILENAME = ''dwh.cfg''"

record 'w state =
  world :: 'w
  trace :: "event list"

definition py_print :: "fragment list \<Rightarrow> 'w state \<Rightarrow> 'w state" where
  "py_print fs s = s\<lparr>trace := trace s @ [Print fs]\<rparr>"

definition sleep :: "nat \<Rightarrow> 'w state \<Rightarrow> 'w state" where
  "sleep n s = s\<lparr>trace := trace s @ [Sleep n]\<rparr>"

text \<open>Sending a request: it is recorded, and the world answers.\<close>

definition call :: "event \<Rightarrow> ('w \<Rightarrow> (exn + 'a) \<times> 'w) \<Rightarrow> 'w state \<Rightarrow> (exn + 'a) \<times> 'w state" where
  "call ev req s = (case req (world s) of (r, w) \<Rightarrow> (r, \<lparr>world = w, trace = trace s @ [ev]\<rparr>))"

text \<open>The characters \<open>'\<close>, \<open>"\<close> and the line feed, as they occur in the printed lines.\<close>

definition squote :: string where
  "squote = [CHR 0x27]"

definition dquote :: string where
  "dquote = [CHR 0x22]"

definition newline :: string where
  "newline = [CHR 0x0A]"

definition AmazonS3ReadOnlyAccess :: string where
  "AmazonS3ReadOnlyAccess = ''arn:aws:iam::aws:policy/AmazonS3ReadOnlyAccess''"

section \<open>redshift_iac.py: the functions\<close>

definition create_iam_role :: "'w iam_client \<Rightarrow> string \<Rightarrow> 'w state \<Rightarrow> (exn + string) \<times> 'w state" where
  "create_iam_role iam_c iam_RoleName s0 =
     (let s1 = py_print [Text (''Creating a new IAM Role: '' @ iam_RoleName)] s0;
          s2 = (case call (IamCreateRole iam_RoleName) (iam_create_role iam_c iam_RoleName) s1 of
                  (Inl e, s) \<Rightarrow> py_print [Exn e] s
                | (Inr dwhRole, s) \<Rightarrow> s)
      in case call (IamAttachRolePolicy iam_RoleName AmazonS3ReadOnlyAccess)
                (iam_attach_role_policy iam_c iam_RoleName AmazonS3ReadOnlyAccess) s2 of
           (Inl e, s3) \<Rightarrow> (Inl e, s3)
         | (Inr attached, s3) \<Rightarrow>
             (case ResponseMetadata attached of
                None \<Rightarrow> (Inl (KeyError ''ResponseMetadata''), s3)
              | Some md \<Rightarrow>
                  (case HTTPStatusCode md of
                     None \<Rightarrow> (Inl (KeyError ''HTTPStatusCode''), s3)
                   | Some code \<Rightarrow>
                       (case call (IamGetRole iam_RoleName) (iam_get_role iam_c iam_RoleName) s3 of
                          (Inl e, s4) \<Rightarrow> (Inl e, s4)
                        | (Inr got, s4) \<Rightarrow>
                            (case Role got of
                               None \<Rightarrow> (Inl (KeyError ''Role''), s4)
                             | Some r \<Rightarrow>
                                 (case Arn r of
                                    None \<Rightarrow> (Inl (KeyError ''Arn''), s4)
                                  | Some roleArn \<Rightarrow>
                                      (Inr roleArn,
                                       py_print [Text (''The ARN of the IAM role was successfully created!''
                                                       @ newline @ roleArn)] s4)))))))"

definition delete_iam_role :: "'w iam_client \<Rightarrow> string \<Rightarrow> 'w state \<Rightarrow> (exn + response) \<times> 'w state" where
  "delete_iam_role iam_c iam_RoleName s0 =
     (let s1 = py_print [Text (''Deleting IAM role named '' @ squote @ iam_RoleName @ squote)] s0
      in case call (IamDetachRolePolicy iam_RoleName AmazonS3ReadOnlyAccess)
                (iam_detach_role_policy iam_c iam_RoleName AmazonS3ReadOnlyAccess) s1 of
           (Inl e, s2) \<Rightarrow> (Inl e, s2)
         | (Inr detached, s2) \<Rightarrow>
             (case call (IamDeleteRole iam_RoleName) (iam_delete_role iam_c iam_RoleName) s2 of
                (Inl e, s3) \<Rightarrow> (Inl e, s3)
              | (Inr response, s3) \<Rightarrow> (Inr response, py_print [Resp response] s3)))"

text \<open>
  The local variable \<open>security_group\<close> is bound only by the assignment inside the
  \<open>try\<close> block; \<open>return security_group\<close> reads it, bound or not.
\<close>

definition create_security_group ::
  "'w ec2_client \<Rightarrow> 'w ec2_resource \<Rightarrow> string \<Rightarrow> 'w state \<Rightarrow> (exn + security_group) \<times> 'w state" where
  "create_security_group ec2_c ec2_r group_name s0 =
     (case (case call (Ec2CreateSecurityGroup ''Authorise redshift cluster access'' group_name)
                   (ec2_create_security_group ec2_c ''Authorise redshift cluster access'' group_name) s0 of
              (Inl e, s1) \<Rightarrow>
                (None, py_print [Text ''Error creating security group: '', Exn e] s1)
            | (Inr response, s1) \<Rightarrow>
                (case GroupId response of
                   None \<Rightarrow>
                     (None, py_print [Text ''Error creating security group: '', Exn (KeyError ''GroupId'')] s1)
                 | Some security_group_id \<Rightarrow>
                     (let s2 = py_print [Text (''Security group '' @ security_group_id
                                               @ '' created successfully.'')] s1;
                          security_group = SecurityGroup security_group_id;
                          s3 = py_print [Text ''Security group object: '', SgObj security_group] s2
                      in (Some security_group, s3)))) of
        (None, s) \<Rightarrow> (Inl (UnboundLocalError ''security_group''), s)
      | (Some security_group, s) \<Rightarrow> (Inr security_group, s))"

text \<open>
  \<open>response.raise_for_status()\<close> raises \<open>HTTPError\<close>, a \<open>RequestException\<close>,
  for a status from 400 to 599. \<open>str.strip()\<close> removes the white space at both ends
  A character of the model is a code point below 256; among these, Python's white space
  is 9 to 13 (tab, line feed, vertical tab, form feed, carriage return), 28 to 31 (the
  four separators), 32 (space), 133 (next line) and 160 (no-break space).
\<close>

definition raise_for_status :: "http_response \<Rightarrow> exn + unit" where
  "raise_for_status r =
     (if 400 \<le> status_code r \<and> status_code r < 600 then Inl (RequestException ''HTTPError'')
      else Inr ())"

definition is_space :: "char \<Rightarrow> bool" where
  "is_space c \<longleftrightarrow> of_char c \<in> {9, 10, 11, 12, 13, 28, 29, 30, 31, 32, 133, 160 :: nat}"

definition strip :: "string \<Rightarrow> string" where
  "strip s = rev (dropWhile is_space (rev (dropWhile is_space s)))"

fun is_RequestException :: "exn \<Rightarrow> bool" where
  "is_RequestException (RequestException m) = True"
| "is_RequestException e = False"

definition get_public_ip ::
  "(string \<Rightarrow> 'w \<Rightarrow> (exn + http_response) \<times> 'w) \<Rightarrow> 'w state \<Rightarrow> (exn + string option) \<times> 'w state" where
  "get_public_ip get s0 =
     (case (case call (HttpGet ''https://ifconfig.me'') (get ''https://ifconfig.me'') s0 of
              (Inl e, s1) \<Rightarrow> (Inl e, s1)
            | (Inr response, s1) \<Rightarrow>
                (case raise_for_status response of
                   Inl e \<Rightarrow> (Inl e, s1)
                 | Inr u \<Rightarrow> (Inr (Some (strip (response_text response))), s1))) of
        (Inl e, s) \<Rightarrow>
          (if is_RequestException e
           then (Inr None, py_print [Text ''Error getting public IP: '', Exn e] s)
           else (Inl e, s))
      | (Inr ip, s) \<Rightarrow> (Inr ip, s))"

definition create_redshift_cluster ::
  "'w globals \<Rightarrow> 'w redshift_client \<Rightarrow> string \<Rightarrow> string \<Rightarrow> string \<Rightarrow> string \<Rightarrow> int
     \<Rightarrow> 'w state \<Rightarrow> (exn + unit) \<times> 'w state" where
  "create_redshift_cluster g redshift_c roleArn SecurityGroupID cluster_type node_type num_nodes s0 =
     (let s1 = py_print [Text ''Creating Redshift Cluster''] s0;
          request = \<lparr>ClusterType = cluster_type, NodeType = node_type, NumberOfNodes = num_nodes,
                     DBName = DB_NAME g, ClusterIdentifier = CLUSTER_ID g,
                     MasterUsername = DB_USER g, MasterUserPassword = DB_PASSWORD g,
                     VpcSecurityGroupIds = [SecurityGroupID], IamRoles = [roleArn]\<rparr>
      in case call (RedshiftCreateCluster request) (redshift_create_cluster redshift_c request) s1 of
           (Inl e, s2) \<Rightarrow> (Inr (), py_print [Exn e] s2)
         | (Inr response, s2) \<Rightarrow> (Inr (), s2))"

definition delete_security_group ::
  "'w ec2_resource \<Rightarrow> string \<Rightarrow> 'w state \<Rightarrow> (exn + unit) \<times> 'w state" where
  "delete_security_group ec2_r group_name s0 =
     (case (case call (Ec2SecurityGroupsFilter group_name)
                   (ec2_security_groups_filter ec2_r group_name) s0 of
              (Inl e, s1) \<Rightarrow> (Inl e, s1)
            | (Inr security_groups, s1) \<Rightarrow>
                (case security_groups of
                   [] \<Rightarrow> (Inr (), py_print [Text (''No security group found with name '' @ dquote @ group_name
                                                     @ dquote)] s1)
                 | security_group_obj # others \<Rightarrow>
                     (let s2 = py_print [Text (''Security group object for '' @ dquote @ group_name @ dquote @ '': ''),
                                         SgObj security_group_obj] s1;
                          s3 = py_print [Text (''Deleting security group: '' @ squote @ group_name @ squote)] s2
                      in case call (SgDelete security_group_obj group_name)
                                (sg_delete ec2_r security_group_obj group_name) s3 of
                           (Inl e, s4) \<Rightarrow> (Inl e, s4)
                         | (Inr response, s4) \<Rightarrow> (Inr (), py_print [Resp response] s4)))) of
        (Inl e, s) \<Rightarrow> (Inr (), py_print [Text ''Error getting security group object: '', Exn e] s)
      | (Inr u, s) \<Rightarrow> (Inr (), s))"

text \<open>
  \<open>response["Clusters"][0]\<close>: \<open>KeyError\<close> without the key, \<open>IndexError\<close> on an
  empty list.
\<close>

definition first_cluster :: "describe_clusters_response \<Rightarrow> exn + cluster" where
  "first_cluster response =
     (case Clusters response of
        None \<Rightarrow> Inl (KeyError ''Clusters'')
      | Some [] \<Rightarrow> Inl IndexError
      | Some (c # cs) \<Rightarrow> Inr c)"

definition get_cluster_info ::
  "'w redshift_client \<Rightarrow> 'w state \<Rightarrow> (exn + string option \<times> string option) \<times> 'w state" where
  "get_cluster_info redshift_c s0 =
     (case (case call (RedshiftDescribeClusters ''dwhCluster'')
                   (redshift_describe_clusters redshift_c ''dwhCluster'') s0 of
              (Inl e, s1) \<Rightarrow> (Inl e, s1)
            | (Inr response, s1) \<Rightarrow>
                (case first_cluster response of
                   Inl e \<Rightarrow> (Inl e, s1)
                 | Inr c \<Rightarrow>
                     (case ClusterStatus c of
                        None \<Rightarrow> (Inl (KeyError ''ClusterStatus''), s1)
                      | Some cluster_status \<Rightarrow>
                          (let s2 = py_print [Text (''Cluster status: '' @ cluster_status)] s1
                           in if cluster_status = ''available'' then
                                (case Endpoint c of
                                   None \<Rightarrow> (Inl (KeyError ''Endpoint''), s2)
                                 | Some ep \<Rightarrow>
                                     (case Address ep of
                                        None \<Rightarrow> (Inl (KeyError ''Address''), s2)
                                      | Some dwh_endpoint \<Rightarrow>
                                          (Inr (Some cluster_status, Some dwh_endpoint), s2)))
                              else (Inr (Some cluster_status, None), s2))))) of
        (Inl e, s) \<Rightarrow> (Inr (None, None), py_print [Text ''Error getting cluster status: '', Exn e] s)
      | (Inr r, s) \<Rightarrow> (Inr r, s))"

definition delete_redshift_cluster ::
  "'w redshift_client \<Rightarrow> string \<Rightarrow> 'w state \<Rightarrow> (exn + unit) \<times> 'w state" where
  "delete_redshift_cluster redshift_c cluster_identifier s0 =
     (case (case call (RedshiftDeleteCluster cluster_identifier True)
                   (redshift_delete_cluster redshift_c cluster_identifier True) s0 of
              (Inl e, s1) \<Rightarrow> (Inl e, s1)
            | (Inr response, s1) \<Rightarrow>
                (Inr (), py_print [Text (''Deleting cluster '' @ squote @ cluster_identifier @ squote @ ''...'')] s1)) of
        (Inl e, s) \<Rightarrow> (Inr (), py_print [Text ''Error deleting cluster: '', Exn e] s)
      | (Inr u, s) \<Rightarrow> (Inr (), s))"

text \<open>\<open>if public_ip:\<close> is false for \<open>None\<close> and for the empty string.\<close>

definition truthy :: "string option \<Rightarrow> bool" where
  "truthy v = (case v of None \<Rightarrow> False | Some a \<Rightarrow> a \<noteq> [])"

text \<open>
  The three subcommands. In \<open>status\<close>, \<open>config["CLUSTER"]["host"] = None\<close> would
  raise \<open>TypeError\<close>: the parser stores strings only.
\<close>

definition init :: "'w globals \<Rightarrow> 'w state \<Rightarrow> (exn + unit) \<times> 'w state" where
  "init g s0 =
     (case create_iam_role (iam g) ''dwh_iam_role'' s0 of
        (Inl e, s1) \<Rightarrow> (Inl e, s1)
      | (Inr iam_role, s1) \<Rightarrow>
          (case create_security_group (ec2_client g) (ec2_resource g) ''redshift_security_group'' s1 of
             (Inl e, s2) \<Rightarrow> (Inl e, s2)
           | (Inr sec_group, s2) \<Rightarrow>
               (case get_public_ip (requests_get g) s2 of
                  (Inl e, s3) \<Rightarrow> (Inl e, s3)
                | (Inr public_ip, s3) \<Rightarrow>
                    (if truthy public_ip then
                       (let ip = (case public_ip of None \<Rightarrow> [] | Some a \<Rightarrow> a);
                            s4 = py_print [Text (''Public IP address: '' @ ip)] s3
                        in case call (SgGroupName sec_group) (sg_group_name (ec2_resource g) sec_group) s4 of
                             (Inl e, s5) \<Rightarrow> (Inl e, s5)
                           | (Inr name, s5) \<Rightarrow>
                               (case call (SgAuthorizeIngress sec_group name (ip @ ''/32'') ''TCP''
                                             (DB_PORT g) (DB_PORT g))
                                         (sg_authorize_ingress (ec2_resource g) sec_group name
                                             (ip @ ''/32'') ''TCP'' (DB_PORT g) (DB_PORT g)) s5 of
                                  (Inl e, s6) \<Rightarrow> (Inl e, s6)
                                | (Inr authorized, s6) \<Rightarrow>
                                    (let s7 = py_print [Text ''Open Incoming TCP port to current public IP address''] s6
                                     in case create_redshift_cluster g (redshift g) iam_role (sg_id sec_group)
                                               ''multi-node'' ''dc2.large'' 2 s7 of
                                          (Inl e, s8) \<Rightarrow> (Inl e, s8)
                                        | (Inr created, s8) \<Rightarrow>
                                            (case call (ConfigSetItem ''IAM_ROLE'' ''ARN'' iam_role)
                                                      (config_setitem g ''IAM_ROLE'' ''ARN'' iam_role) s8 of
                                               (Inl e, s9) \<Rightarrow> (Inl e, s9)
                                             | (Inr u, s9) \<Rightarrow>
                                                 (case call (ConfigWriteFile CONFIG_FILENAME)
                                                           (config_write_file g CONFIG_FILENAME) s9 of
                                                    (Inl e, s10) \<Rightarrow> (Inl e, s10)
                                                  | (Inr u', s10) \<Rightarrow>
                                                      (Inr (), py_print [Text (''Updated '' @ CONFIG_FILENAME
                                                                               @ '' with IAM ARN'')] s10))))))
                     else (Inl (PyException ''Failed to retrieve public IP address''), s3)))))"

definition status :: "'w globals \<Rightarrow> 'w state \<Rightarrow> (exn + unit) \<times> 'w state" where
  "status g s0 =
     (case get_cluster_info (redshift g) s0 of
        (Inl e, s1) \<Rightarrow> (Inl e, s1)
      | (Inr (cluster_status, dwh_endpoint), s1) \<Rightarrow>
          (if cluster_status = Some ''available'' then
             (let s2 = py_print [Text ''You are ready to use your Redshift cluster!''] s1
              in case dwh_endpoint of
                   None \<Rightarrow> (Inl (TypeError ''option values must be strings''), s2)
                 | Some host \<Rightarrow>
                     (case call (ConfigSetItem ''CLUSTER'' ''host'' host)
                               (config_setitem g ''CLUSTER'' ''host'' host) s2 of
                        (Inl e, s3) \<Rightarrow> (Inl e, s3)
                      | (Inr u, s3) \<Rightarrow>
                          (case call (ConfigWriteFile CONFIG_FILENAME) (config_write_file g CONFIG_FILENAME) s3 of
                             (Inl e, s4) \<Rightarrow> (Inl e, s4)
                           | (Inr u', s4) \<Rightarrow>
                               (Inr (), py_print [Text (''Updated '' @ CONFIG_FILENAME @ '' with host'')] s4))))
           else (Inr (), s1)))"

definition delete :: "'w globals \<Rightarrow> 'w state \<Rightarrow> (exn + unit) \<times> 'w state" where
  "delete g s0 =
     (case delete_iam_role (iam g) ''dwh_iam_role'' s0 of
        (Inl e, s1) \<Rightarrow> (Inl e, s1)
      | (Inr response, s1) \<Rightarrow>
          (case delete_redshift_cluster (redshift g) (CLUSTER_ID g) s1 of
             (Inl e, s2) \<Rightarrow> (Inl e, s2)
           | (Inr deleting, s2) \<Rightarrow>
               delete_security_group (ec2_resource g) ''redshift_security_group'' (sleep 5 s2)))"

section \<open>Reading a trace\<close>

text \<open>The requests and pauses of a trace, without what was printed.\<close>

fun is_Print :: "event \<Rightarrow> bool" where
  "is_Print (Print fs) = True"
| "is_Print ev = False"

definition actions :: "event list \<Rightarrow> event list" where
  "actions tr = filter (\<lambda>ev. \<not> is_Print ev) tr"

text \<open>The events that open access to the warehouse: an ingress rule, a cluster.\<close>

fun opens_access :: "event \<Rightarrow> bool" where
  "opens_access (SgAuthorizeIngress sg name cidr proto from_port to_port) = True"
| "opens_access (RedshiftCreateCluster request) = True"
| "opens_access ev = False"



section \<open>An account to run the functions against\<close>

text \<open>
  A small provider account for concrete runs: the roles, the security groups (name and
  identifier) and the clusters that exist, and whether the address service can be
  reached. It answers a request about a missing or a duplicate resource with the
  error code the provider documents for it.
\<close>

record account =
  roles :: "string list"
  groups :: "(string \<times> string) list"
  clusters :: "(string \<times> cluster) list"
  online :: bool

definition account_iam :: "account iam_client" where
  "account_iam =
     \<lparr>iam_create_role = (\<lambda>name a.
        if name \<in> set (roles a) then (Inl (ClientError ''EntityAlreadyExists''), a)
        else (Inr (Response ''Role''), a\<lparr>roles := name # roles a\<rparr>)),
      iam_attach_role_policy = (\<lambda>name policy a.
        if name \<in> set (roles a)
        then (Inr \<lparr>ResponseMetadata = Some \<lparr>HTTPStatusCode = Some 200\<rparr>\<rparr>, a)
        else (Inl (ClientError ''NoSuchEntity''), a)),
      iam_get_role = (\<lambda>name a.
        if name \<in> set (roles a)
        then (Inr \<lparr>Role = Some \<lparr>Arn = Some (''arn:aws:iam::123456789012:role/'' @ name)\<rparr>\<rparr>, a)
        else (Inl (ClientError ''NoSuchEntity''), a)),
      iam_detach_role_policy = (\<lambda>name policy a.
        if name \<in> set (roles a) then (Inr (Response ''ResponseMetadata''), a)
        else (Inl (ClientError ''NoSuchEntity''), a)),
      iam_delete_role = (\<lambda>name a.
        if name \<in> set (roles a)
        then (Inr (Response ''ResponseMetadata''), a\<lparr>roles := removeAll name (roles a)\<rparr>)
        else (Inl (ClientError ''NoSuchEntity''), a))\<rparr>"

definition account_ec2_client :: "account ec2_client" where
  "account_ec2_client =
     \<lparr>ec2_create_security_group = (\<lambda>description name a.
        if name \<in> set (map fst (groups a)) then (Inl (ClientError ''InvalidGroup.Duplicate''), a)
        else (Inr \<lparr>GroupId = Some (''sg-'' @ name)\<rparr>, a\<lparr>groups := (name, ''sg-'' @ name) # groups a\<rparr>))\<rparr>"

definition account_ec2_resource :: "account ec2_resource" where
  "account_ec2_resource =
     \<lparr>ec2_security_groups_filter = (\<lambda>name a.
        (Inr (map (\<lambda>g. SecurityGroup (snd g)) (filter (\<lambda>g. fst g = name) (groups a))), a)),
      sg_group_name = (\<lambda>sg a.
        case filter (\<lambda>g. snd g = sg_id sg) (groups a) of
          [] \<Rightarrow> (Inl (ClientError ''InvalidGroup.NotFound''), a)
        | g # gs \<Rightarrow> (Inr (fst g), a)),
      sg_authorize_ingress = (\<lambda>sg name cidr proto from_port to_port a.
        if sg_id sg \<in> set (map snd (groups a)) then (Inr (Response ''Return''), a)
        else (Inl (ClientError ''InvalidGroup.NotFound''), a)),
      sg_delete = (\<lambda>sg name a.
        if sg_id sg \<in> set (map snd (groups a))
        then (Inr (Response ''ResponseMetadata''), a\<lparr>groups := filter (\<lambda>g. snd g \<noteq> sg_id sg) (groups a)\<rparr>)
        else (Inl (ClientError ''InvalidGroup.NotFound''), a))\<rparr>"

definition account_redshift :: "account redshift_client" where
  "account_redshift =
     \<lparr>redshift_create_cluster = (\<lambda>request a.
        if ClusterIdentifier request \<in> set (map fst (clusters a))
        then (Inl (ClientError ''ClusterAlreadyExists''), a)
        else (Inr (Response ''Cluster''),
              a\<lparr>clusters := (ClusterIdentifier request,
                               \<lparr>ClusterStatus = Some ''creating'', Endpoint = None\<rparr>) # clusters a\<rparr>)),
      redshift_describe_clusters = (\<lambda>i a.
        case map_of (clusters a) i of
          None \<Rightarrow> (Inl (ClientError ''ClusterNotFound''), a)
        | Some c \<Rightarrow> (Inr \<lparr>Clusters = Some [c]\<rparr>, a)),
      redshift_delete_cluster = (\<lambda>i skip a.
        if i \<in> set (map fst (clusters a))
        then (Inr (Response ''Cluster''), a\<lparr>clusters := filter (\<lambda>c. fst c \<noteq> i) (clusters a)\<rparr>)
        else (Inl (ClientError ''ClusterNotFound''), a))\<rparr>"

definition account_globals :: "string \<Rightarrow> account globals" where
  "account_globals cluster_id =
     \<lparr>iam = account_iam, ec2_client = account_ec2_client, ec2_resource = account_ec2_resource,
      redshift = account_redshift,
      requests_get = (\<lambda>url a.
        if online a then (Inr \<lparr>status_code = 200, response_text = ''203.0.113.7''\<rparr>, a)
        else (Inl (RequestException ''ConnectionError''), a)),
      config_setitem = (\<lambda>section key v a. (Inr (), a)),
      config_write_file = (\<lambda>name a. (Inr (), a)),
      CLUSTER_ID = cluster_id, DB_NAME = ''dwh'', DB_USER = ''dwhuser'', DB_PASSWORD = ''Passw0rd'',
      DB_PORT = 5439\<rparr>"

text \<open>An account with nothing in it, and the start of a run against an account.\<close>

definition empty_account :: account where
  "empty_account = \<lparr>roles = [], groups = [], clusters = [], online = True\<rparr>"

definition start :: "account \<Rightarrow> account state" where
  "start a = \<lparr>world = a, trace = []\<rparr>"

text \<open>
  Accounts in the situations the subcommands meet: everything provisioned and the
  cluster up; the same with the role already gone; nothing provisioned and the address
  service out of reach; a cluster that is still being created.
\<close>

definition available_cluster :: cluster where
  "available_cluster =
     \<lparr>ClusterStatus = Some ''available'',
      Endpoint = Some \<lparr>Address = Some ''dwhcluster.example.us-west-2.redshift.amazonaws.com''\<rparr>\<rparr>"

definition provisioned_account :: account where
  "provisioned_account =
     \<lparr>roles = [''dwh_iam_role''], groups = [(''redshift_security_group'', ''sg-0a1b'')],
      clusters = [(''dwhCluster'', available_cluster), (''sparkify'', available_cluster)], online = True\<rparr>"

definition roleless_account :: account where
  "roleless_account = provisioned_account\<lparr>roles := []\<rparr>"

definition offline_account :: account where
  "offline_account = empty_account\<lparr>online := False\<rparr>"

definition creating_account :: account where
  "creating_account =
     empty_account\<lparr>clusters := [(''dwhCluster'', \<lparr>ClusterStatus = Some ''creating'', Endpoint = None\<rparr>)]\<rparr>"

text \<open>
  A warehouse with three events and two songs; a database that counts the statements it
  executes and rejects one of them; a connection that refuses the commit in one state.
\<close>

definition sample_events :: "staging_events_row list" where
  "sample_events =
     [\<lparr>e_artist = Some ''Muse'', e_length = Some 200, e_level = Some ''free'', e_location = None,
       e_sessionId = Some 7, e_song = Some ''Uprising'', e_ts = Some 1000, e_userAgent = None,
       e_userId = Some 1\<rparr>,
      \<lparr>e_artist = Some ''Muse'', e_length = Some 201, e_level = Some ''paid'', e_location = None,
       e_sessionId = Some 8, e_song = Some ''Uprising'', e_ts = Some 2000, e_userAgent = None,
       e_userId = Some 2\<rparr>,
      \<lparr>e_artist = None, e_length = None, e_level = Some ''paid'', e_location = None,
       e_sessionId = Some 8, e_song = None, e_ts = Some 3000, e_userAgent = None,
       e_userId = Some 2\<rparr>]"

definition sample_songs :: "staging_songs_row list" where
  "sample_songs =
     [\<lparr>s_artist_id = Some ''AR1'', s_artist_name = Some ''Muse'', s_song_id = Some ''SO1'',
       s_title = Some ''Uprising'', s_duration = Some 200\<rparr>,
      \<lparr>s_artist_id = None, s_artist_name = None, s_song_id = Some ''SO2'',
       s_title = None, s_duration = None\<rparr>]"

definition sample_warehouse :: "unit warehouse" where
  "sample_warehouse =
     \<lparr>wh_staging_events = sample_events, wh_staging_songs = sample_songs, wh_songplays = [],
      wh_dims = ()\<rparr>"

definition rejects :: "query \<Rightarrow> query \<Rightarrow> nat \<Rightarrow> exn + nat" where
  "rejects bad q n = (if q = bad then Inl (DatabaseError ''rejected'') else Inr (Suc n))"

definition refuses_commit_at :: "nat \<Rightarrow> nat \<Rightarrow> exn + nat" where
  "refuses_commit_at k n = (if n = k then Inl (DatabaseError ''commit refused'') else Inr n)"

definition sample_s3_config :: s3_config where
  "sample_s3_config =
     \<lparr>LOG_DATA = ''s3://udacity-dend/log_data'', LOG_JSONPATH = ''s3://udacity-dend/log_json_path.json'',
      SONG_DATA = ''s3://udacity-dend/song_data'', IAM_ROLE_ARN = ''arn:aws:iam::123456789012:role/dwh_iam_role''\<rparr>"

section \<open>The runners: order, commits, first failure\<close>

lemmas query_defs =
  staging_events_table_drop_def staging_songs_table_drop_def songplay_table_drop_def
  user_table_drop_def song_table_drop_def artist_table_drop_def time_table_drop_def
  staging_events_table_create_def staging_songs_table_create_def songplay_table_create_def
  user_table_create_def song_table_create_def artist_table_create_def time_table_create_def
  staging_events_copy_def staging_songs_copy_def
  songplay_table_insert_def user_table_insert_def song_table_insert_def
  artist_table_insert_def time_table_insert_def
  create_table_queries_def drop_table_queries_def copy_table_queries_def insert_table_queries_def

lemma run_queries_success:
  "run_queries exec commit qs db = (tr, Inr db') \<Longrightarrow>
     tr = concat (map (\<lambda>q. [Execute q, Commit]) qs)"
proof (induction qs arbitrary: db tr)
  case Nil
  then show ?case by simp
next
  case (Cons q qs)
  then show ?case
    by (auto split: sum.splits prod.splits)
qed

lemma run_queries_failure:
  "run_queries exec commit qs db = (tr, Inl e) \<Longrightarrow>
     \<exists>pre q rest db1.
       qs = pre @ q # rest
       \<and> run_queries exec commit pre db = (concat (map (\<lambda>q. [Execute q, Commit]) pre), Inr db1)
       \<and> (exec q db1 = Inl e \<and> tr = concat (map (\<lambda>q. [Execute q, Commit]) pre) @ [Execute q]
          \<or> (\<exists>db2. exec q db1 = Inr db2 \<and> commit db2 = Inl e
                \<and> tr = concat (map (\<lambda>q. [Execute q, Commit]) pre) @ [Execute q, Commit]))"
proof (induction qs arbitrary: db tr)
  case Nil
  then show ?case by simp
next
  case (Cons q qs)
  show ?case
  proof (cases "exec q db")
    case (Inl e1)
    with Cons.prems have "e1 = e" "tr = [Execute q]" by auto
    with Inl show ?thesis
      by (intro exI[of _ "[]"] exI[of _ q] exI[of _ qs] exI[of _ db]) simp
  next
    case (Inr db1)
    show ?thesis
    proof (cases "commit db1")
      case (Inl e1)
      with Cons.prems Inr have "e1 = e" "tr = [Execute q, Commit]" by auto
      with Inl Inr show ?thesis
        by (intro exI[of _ "[]"] exI[of _ q] exI[of _ qs] exI[of _ db]) simp
    next
      case db2: (Inr db2)
      obtain tr' where tr': "run_queries exec commit qs db2 = (tr', Inl e)" "tr = Execute q # Commit # tr'"
        using Cons.prems Inr db2 by (auto split: prod.splits)
      from Cons.IH[OF tr'(1)] obtain pre q' rest db3 where
        h: "qs = pre @ q' # rest"
           "run_queries exec commit pre db2 = (concat (map (\<lambda>q. [Execute q, Commit]) pre), Inr db3)"
           "(exec q' db3 = Inl e \<and> tr' = concat (map (\<lambda>q. [Execute q, Commit]) pre) @ [Execute q']
          \<or> (\<exists>db2. exec q' db3 = Inr db2 \<and> commit db2 = Inl e
                \<and> tr' = concat (map (\<lambda>q. [Execute q, Commit]) pre) @ [Execute q', Commit]))"
        by blast
      show ?thesis
        using h tr'(2) Inr db2
        by (intro exI[of _ "q # pre"] exI[of _ q'] exI[of _ rest] exI[of _ db3]) auto
    qed
  qed
qed

lemma run_queries_committed:
  "committed exec commit qs db = Some db' \<Longrightarrow>
     run_queries exec commit qs db = (concat (map (\<lambda>q. [Execute q, Commit]) qs), Inr db')"
  by (induction qs arbitrary: db) (auto split: sum.splits)

lemma committed_run_queries:
  "run_queries exec commit qs db = (tr, Inr db') \<Longrightarrow> committed exec commit qs db = Some db'"
  by (induction qs arbitrary: db tr) (auto split: sum.splits prod.splits)

lemma run_queries_exec_fails:
  "committed exec commit pre db = Some db1 \<Longrightarrow> exec q db1 = Inl e \<Longrightarrow>
     run_queries exec commit (pre @ q # rest) db =
       (concat (map (\<lambda>q. [Execute q, Commit]) pre) @ [Execute q], Inl e)"
  by (induction pre arbitrary: db) (auto split: sum.splits)

lemma run_queries_commit_fails:
  "committed exec commit pre db = Some db1 \<Longrightarrow> exec q db1 = Inr db2 \<Longrightarrow> commit db2 = Inl e \<Longrightarrow>
     run_queries exec commit (pre @ q # rest) db =
       (concat (map (\<lambda>q. [Execute q, Commit]) pre) @ [Execute q, Commit], Inl e)"
  by (induction pre arbitrary: db) (auto split: sum.splits)

lemma executed_run_queries:
  "\<exists>n. executed (fst (run_queries exec commit qs db)) = take n qs \<and> (qs \<noteq> [] \<longrightarrow> 1 \<le> n)"
proof (induction qs arbitrary: db)
  case Nil
  then show ?case by simp
next
  case (Cons q qs)
  show ?case
  proof (cases "exec q db")
    case (Inl e)
    then have "executed (fst (run_queries exec commit (q # qs) db)) = take 1 (q # qs)"
      by simp
    then show ?thesis by (intro exI[of _ 1]) simp
  next
    case (Inr db1)
    show ?thesis
    proof (cases "commit db1")
      case (Inl e)
      with Inr have "executed (fst (run_queries exec commit (q # qs) db)) = take 1 (q # qs)"
        by simp
      then show ?thesis by (intro exI[of _ 1]) simp
    next
      case db2: (Inr db2)
      obtain n where n: "executed (fst (run_queries exec commit qs db2)) = take n qs"
        using Cons.IH[of db2] by blast
      have "executed (fst (run_queries exec commit (q # qs) db)) = take (Suc n) (q # qs)"
        using Inr db2 n by (cases "run_queries exec commit qs db2") simp
      then show ?thesis by (intro exI[of _ "Suc n"]) simp
    qed
  qed
qed

text \<open>
  C1. The list that \<open>insert_tables\<close> runs is the insert into the fact table
  \<open>songplays\<close> followed by the inserts into \<open>users\<close>, \<open>songs\<close>, \<open>artists\<close> and
  \<open>time\<close>, in this order, and \<open>insert_tables\<close> executes it in this order: whatever the
  database answers, the first thing it does on the connection is to execute the
  \<open>songplays\<close> insert, and the statements it has executed when it ends are the first
  \<open>n\<close> of the list, for some \<open>n\<close> from 1 on (so a dimension insert is never
  executed before the fact insert); and when every statement and every commit succeeds,
  it executes and commits all five, the fact insert first.
\<close>

theorem insert_tables_fact_table_first:
  "insert_table_queries = InsertInto songplays # map InsertInto [users, songs, artists, time]
   \<and> take 1 (fst (insert_tables exec commit db)) = [Execute (InsertInto songplays)]
   \<and> (\<exists>n. 1 \<le> n
          \<and> executed (fst (insert_tables exec commit db)) =
              take n (InsertInto songplays # map InsertInto [users, songs, artists, time]))
   \<and> (\<forall>db'. committed exec commit
                 [InsertInto songplays, InsertInto users, InsertInto songs, InsertInto artists,
                  InsertInto time] db = Some db'
          \<longrightarrow> insert_tables exec commit db =
                ([Execute (InsertInto songplays), Commit, Execute (InsertInto users), Commit,
                  Execute (InsertInto songs), Commit, Execute (InsertInto artists), Commit,
                  Execute (InsertInto time), Commit], Inr db'))"
proof -
  have l: "insert_table_queries =
             [InsertInto songplays, InsertInto users, InsertInto songs, InsertInto artists, InsertInto time]"
    by (simp add: query_defs)
  have a: "insert_table_queries = InsertInto songplays # map InsertInto [users, songs, artists, time]"
    by (simp add: l)
  have b: "take 1 (fst (insert_tables exec commit db)) = [Execute (InsertInto songplays)]"
    by (simp add: insert_tables_def l split: sum.splits prod.splits)
  have c: "\<exists>n. 1 \<le> n
          \<and> executed (fst (insert_tables exec commit db)) =
              take n (InsertInto songplays # map InsertInto [users, songs, artists, time])"
    using executed_run_queries[of exec commit insert_table_queries db]
    unfolding insert_tables_def l by auto
  have d: "\<forall>db'. committed exec commit
                 [InsertInto songplays, InsertInto users, InsertInto songs, InsertInto artists,
                  InsertInto time] db = Some db'
          \<longrightarrow> insert_tables exec commit db =
                ([Execute (InsertInto songplays), Commit, Execute (InsertInto users), Commit,
                  Execute (InsertInto songs), Commit, Execute (InsertInto artists), Commit,
                  Execute (InsertInto time), Commit], Inr db')"
  proof (intro allI impI)
    fix db'
    assume "committed exec commit
                 [InsertInto songplays, InsertInto users, InsertInto songs, InsertInto artists,
                  InsertInto time] db = Some db'"
    from run_queries_committed[OF this]
    show "insert_tables exec commit db =
                ([Execute (InsertInto songplays), Commit, Execute (InsertInto users), Commit,
                  Execute (InsertInto songs), Commit, Execute (InsertInto artists), Commit,
                  Execute (InsertInto time), Commit], Inr db')"
      unfolding insert_tables_def l by simp
  qed
  show ?thesis
    by (rule conjI[OF a conjI[OF b conjI[OF c d]]])
qed

text \<open>
  A database that counts the statements it executes and rejects none of the five: all five
  are executed and committed, the fact insert first.
\<close>

theorem insert_tables_fact_table_first_witness:
  "committed (rejects time_table_drop) Inr
      [InsertInto songplays, InsertInto users, InsertInto songs, InsertInto artists, InsertInto time] 0
     = Some 5
   \<and> insert_tables (rejects time_table_drop) Inr 0 =
       ([Execute (InsertInto songplays), Commit, Execute (InsertInto users), Commit,
         Execute (InsertInto songs), Commit, Execute (InsertInto artists), Commit,
         Execute (InsertInto time), Commit], Inr 5)"
proof -
  have h: "committed (rejects time_table_drop) Inr
      [InsertInto songplays, InsertInto users, InsertInto songs, InsertInto artists, InsertInto time] 0
     = Some 5"
    by (simp add: rejects_def time_table_drop_def)
  from insert_tables_fact_table_first[of "rejects time_table_drop" Inr 0] h
  show ?thesis by blast
qed

text \<open>
  C6. Each of the four runners (\<open>load_staging_tables\<close>, \<open>insert_tables\<close>,
  \<open>drop_tables\<close>, \<open>create_tables\<close>) works through its list in order on the one
  connection, committing after every statement. When every statement and every commit
  succeeds, the run executes and commits each statement of the list in turn and returns
  the database they leave. When the statements before some statement \<open>q\<close> of the list
  have been executed and committed and \<open>q\<close> fails with \<open>e\<close>, the run stops there: its
  last act is the execution of \<open>q\<close>, no statement after \<open>q\<close> is executed, nothing is
  retried, and the caller gets \<open>e\<close>; likewise when the commit after \<open>q\<close> fails. And
  conversely: a run that returns has executed and committed the whole list, and a run
  that raises \<open>e\<close> has stopped at such a statement \<open>q\<close>.
\<close>

theorem runners_commit_each_statement_and_stop:
  assumes "(run, qs) \<in>
             {(load_staging_tables exec commit cfg, copy_table_queries cfg),
              (insert_tables exec commit, insert_table_queries),
              (drop_tables exec commit, drop_table_queries),
              (create_tables exec commit, create_table_queries)}"
  shows "(\<forall>db'. committed exec commit qs db = Some db'
            \<longrightarrow> run db = (concat (map (\<lambda>q. [Execute q, Commit]) qs), Inr db'))
       \<and> (\<forall>pre q rest db1 e.
            qs = pre @ q # rest \<and> committed exec commit pre db = Some db1 \<and> exec q db1 = Inl e
            \<longrightarrow> run db = (concat (map (\<lambda>q. [Execute q, Commit]) pre) @ [Execute q], Inl e))
       \<and> (\<forall>pre q rest db1 db2 e.
            qs = pre @ q # rest \<and> committed exec commit pre db = Some db1 \<and> exec q db1 = Inr db2
              \<and> commit db2 = Inl e
            \<longrightarrow> run db = (concat (map (\<lambda>q. [Execute q, Commit]) pre) @ [Execute q, Commit], Inl e))
       \<and> (\<forall>tr db'. run db = (tr, Inr db')
            \<longrightarrow> tr = concat (map (\<lambda>q. [Execute q, Commit]) qs) \<and> committed exec commit qs db = Some db')
       \<and> (\<forall>tr e. run db = (tr, Inl e) \<longrightarrow>
            (\<exists>pre q rest db1.
               qs = pre @ q # rest
               \<and> run_queries exec commit pre db = (concat (map (\<lambda>q. [Execute q, Commit]) pre), Inr db1)
               \<and> (exec q db1 = Inl e \<and> tr = concat (map (\<lambda>q. [Execute q, Commit]) pre) @ [Execute q]
                  \<or> (\<exists>db2. exec q db1 = Inr db2 \<and> commit db2 = Inl e
                        \<and> tr = concat (map (\<lambda>q. [Execute q, Commit]) pre) @ [Execute q, Commit]))))"
proof -
  have run: "run db = run_queries exec commit qs db"
    using assms
    by (auto simp: load_staging_tables_def insert_tables_def drop_tables_def create_tables_def)
  show ?thesis
  proof (intro conjI allI impI)
    fix db'
    assume "committed exec commit qs db = Some db'"
    then show "run db = (concat (map (\<lambda>q. [Execute q, Commit]) qs), Inr db')"
      unfolding run by (rule run_queries_committed)
  next
    fix pre q rest db1 e
    assume h: "qs = pre @ q # rest \<and> committed exec commit pre db = Some db1 \<and> exec q db1 = Inl e"
    then have c: "committed exec commit pre db = Some db1" and x: "exec q db1 = Inl e"
      by simp_all
    show "run db = (concat (map (\<lambda>q. [Execute q, Commit]) pre) @ [Execute q], Inl e)"
      unfolding run using h run_queries_exec_fails[OF c x, of rest] by simp
  next
    fix pre q rest db1 db2 e
    assume h: "qs = pre @ q # rest \<and> committed exec commit pre db = Some db1 \<and> exec q db1 = Inr db2
              \<and> commit db2 = Inl e"
    then have c: "committed exec commit pre db = Some db1" and x: "exec q db1 = Inr db2"
        and y: "commit db2 = Inl e"
      by simp_all
    show "run db = (concat (map (\<lambda>q. [Execute q, Commit]) pre) @ [Execute q, Commit], Inl e)"
      unfolding run using h run_queries_commit_fails[OF c x y, of rest] by simp
  next
    fix tr db'
    assume "run db = (tr, Inr db')"
    then have r: "run_queries exec commit qs db = (tr, Inr db')"
      by (simp add: run)
    then show "tr = concat (map (\<lambda>q. [Execute q, Commit]) qs)"
      by (rule run_queries_success)
    from r show "committed exec commit qs db = Some db'"
      by (rule committed_run_queries)
  next
    fix tr e
    assume "run db = (tr, Inl e)"
    then have "run_queries exec commit qs db = (tr, Inl e)"
      by (simp add: run)
    then show "\<exists>pre q rest db1.
               qs = pre @ q # rest
               \<and> run_queries exec commit pre db = (concat (map (\<lambda>q. [Execute q, Commit]) pre), Inr db1)
               \<and> (exec q db1 = Inl e \<and> tr = concat (map (\<lambda>q. [Execute q, Commit]) pre) @ [Execute q]
                  \<or> (\<exists>db2. exec q db1 = Inr db2 \<and> commit db2 = Inl e
                        \<and> tr = concat (map (\<lambda>q. [Execute q, Commit]) pre) @ [Execute q, Commit]))"
      by (rule run_queries_failure)
  qed
qed

text \<open>
  A database that rejects the insert into \<open>songs\<close>: \<open>insert_tables\<close> executes and
  commits the two statements before it, executes it, and raises its error without
  executing the two statements after it; \<open>drop_tables\<close>, whose list does not hold it,
  runs to the end. A connection that refuses the commit once three statements have been
  executed: \<open>create_tables\<close> stops at the commit of its third statement.
\<close>

theorem runners_commit_each_statement_and_stop_witness:
  "committed (rejects song_table_insert) Inr [songplay_table_insert, user_table_insert] 0 = Some 2
   \<and> rejects song_table_insert song_table_insert 2 = Inl (DatabaseError ''rejected'')
   \<and> insert_tables (rejects song_table_insert) Inr 0 =
       ([Execute songplay_table_insert, Commit, Execute user_table_insert, Commit, Execute song_table_insert],
        Inl (DatabaseError ''rejected''))
   \<and> committed (rejects song_table_insert) Inr drop_table_queries 0 = Some 7
   \<and> drop_tables (rejects song_table_insert) Inr 0 =
       (concat (map (\<lambda>q. [Execute q, Commit]) drop_table_queries), Inr 7)
   \<and> refuses_commit_at 3 3 = Inl (DatabaseError ''commit refused'')
   \<and> create_tables (rejects song_table_insert) (refuses_commit_at 3) 0 =
       ([Execute staging_events_table_create, Commit, Execute staging_songs_table_create, Commit,
         Execute user_table_create, Commit], Inl (DatabaseError ''commit refused''))"
proof -
  let ?exec = "rejects song_table_insert"
  have m1: "(insert_tables ?exec Inr, insert_table_queries) \<in>
             {(load_staging_tables ?exec Inr sample_s3_config, copy_table_queries sample_s3_config),
              (insert_tables ?exec Inr, insert_table_queries),
              (drop_tables ?exec Inr, drop_table_queries),
              (create_tables ?exec Inr, create_table_queries)}"
    by simp
  have m2: "(drop_tables ?exec Inr, drop_table_queries) \<in>
             {(load_staging_tables ?exec Inr sample_s3_config, copy_table_queries sample_s3_config),
              (insert_tables ?exec Inr, insert_table_queries),
              (drop_tables ?exec Inr, drop_table_queries),
              (create_tables ?exec Inr, create_table_queries)}"
    by simp
  have m3: "(create_tables ?exec (refuses_commit_at 3), create_table_queries) \<in>
             {(load_staging_tables ?exec (refuses_commit_at 3) sample_s3_config, copy_table_queries sample_s3_config),
              (insert_tables ?exec (refuses_commit_at 3), insert_table_queries),
              (drop_tables ?exec (refuses_commit_at 3), drop_table_queries),
              (create_tables ?exec (refuses_commit_at 3), create_table_queries)}"
    by simp
  have q1: "insert_table_queries =
              [songplay_table_insert, user_table_insert] @ song_table_insert # [artist_table_insert, time_table_insert]"
    by (simp add: insert_table_queries_def)
  have c1: "committed ?exec Inr [songplay_table_insert, user_table_insert] 0 = Some 2"
    by (simp add: rejects_def query_defs)
  have x1: "?exec song_table_insert 2 = Inl (DatabaseError ''rejected'')"
    by (simp add: rejects_def)
  have r1: "insert_tables ?exec Inr 0 =
       ([Execute songplay_table_insert, Commit, Execute user_table_insert, Commit, Execute song_table_insert],
        Inl (DatabaseError ''rejected''))"
    using runners_commit_each_statement_and_stop[OF m1, of 0, THEN conjunct2, THEN conjunct1, rule_format,
        of "[songplay_table_insert, user_table_insert]" song_table_insert
           "[artist_table_insert, time_table_insert]" 2 "DatabaseError ''rejected''"]
      q1 c1 x1 by simp
  have c2: "committed ?exec Inr drop_table_queries 0 = Some 7"
    by (simp add: rejects_def query_defs)
  have r2: "drop_tables ?exec Inr 0 = (concat (map (\<lambda>q. [Execute q, Commit]) drop_table_queries), Inr 7)"
    using runners_commit_each_statement_and_stop[OF m2, of 0, THEN conjunct1, rule_format, OF c2] .
  have q3: "create_table_queries =
              [staging_events_table_create, staging_songs_table_create] @ user_table_create #
              [song_table_create, artist_table_create, time_table_create, songplay_table_create]"
    by (simp add: create_table_queries_def)
  have c3: "committed ?exec (refuses_commit_at 3) [staging_events_table_create, staging_songs_table_create] 0 = Some 2"
    by (simp add: rejects_def refuses_commit_at_def query_defs)
  have x3: "?exec user_table_create 2 = Inr 3"
    by (simp add: rejects_def query_defs)
  have y3: "refuses_commit_at 3 3 = Inl (DatabaseError ''commit refused'')"
    by (simp add: refuses_commit_at_def)
  have r3: "create_tables ?exec (refuses_commit_at 3) 0 =
       ([Execute staging_events_table_create, Commit, Execute staging_songs_table_create, Commit,
         Execute user_table_create, Commit], Inl (DatabaseError ''commit refused''))"
    using runners_commit_each_statement_and_stop[OF m3, of 0, THEN conjunct2, THEN conjunct2, THEN conjunct1,
        rule_format, of "[staging_events_table_create, staging_songs_table_create]" user_table_create
           "[song_table_create, artist_table_create, time_table_create, songplay_table_create]" 2 3
           "DatabaseError ''commit refused''"]
      q3 c3 x3 y3 by simp
  show ?thesis
    by (rule conjI[OF c1 conjI[OF x1 conjI[OF r1 conjI[OF c2 conjI[OF r2 conjI[OF y3 r3]]]]]])
qed

section \<open>The songplays insert\<close>

lemma sql_eq_iff: "sql_eq a b \<longleftrightarrow> (\<exists>x. a = Some x \<and> b = Some x)"
  by (auto simp: sql_eq_def split: option.splits)

lemma set_songplay_join:
  "set (songplay_join es ss) = {(e, s). e \<in> set es \<and> s \<in> set ss \<and> songplay_join_on e s}"
  by (auto simp: songplay_join_def)

lemma songplay_insert_Inr:
  "songplay_insert es ss sp = Inr sp' \<Longrightarrow> sp' = sp @ map songplay_select (songplay_join es ss)"
  by (simp add: songplay_insert_def Let_def split: if_splits)

lemma insert_tables_warehouse:
  assumes "insert_tables (exec_query dim_insert other) wh_commit wh = (tr, Inr wh')"
  shows "songplay_insert (wh_staging_events wh) (wh_staging_songs wh) (wh_songplays wh) = Inr (wh_songplays wh')"
  using assms
  by (auto simp: insert_tables_def insert_table_queries_def songplay_table_insert_def user_table_insert_def
      song_table_insert_def artist_table_insert_def time_table_insert_def wh_commit_def
      split: sum.splits prod.splits)

text \<open>
  C7. When the transform stage has run to its end, \<open>songplays\<close> holds, after the rows it
  held before, exactly one row for each pair that the join of the two staging tables
  produces, in the same order. For a row \<open>e\<close> of \<open>staging_events\<close> the join produces a
  pair (so that a fact row exists for \<open>e\<close>) if and only if some row \<open>s\<close> of
  \<open>staging_songs\<close> has the same artist name, the same duration and the same title as
  \<open>e\<close>, none of them \<open>NULL\<close>: equality on one or two of the three gives no row.
\<close>

theorem songplays_rows_exact_join:
  assumes "insert_tables (exec_query dim_insert other) wh_commit wh = (tr, Inr wh')"
  shows "wh_songplays wh' =
           wh_songplays wh @ map songplay_select (songplay_join (wh_staging_events wh) (wh_staging_songs wh))
     \<and> (\<forall>e \<in> set (wh_staging_events wh).
           (\<exists>s. (e, s) \<in> set (songplay_join (wh_staging_events wh) (wh_staging_songs wh)))
           \<longleftrightarrow> (\<exists>s \<in> set (wh_staging_songs wh). \<exists>a d t.
                  e_artist e = Some a \<and> s_artist_name s = Some a
                  \<and> e_length e = Some d \<and> s_duration s = Some d
                  \<and> e_song e = Some t \<and> s_title s = Some t))"
proof -
  have "wh_songplays wh' =
           wh_songplays wh @ map songplay_select (songplay_join (wh_staging_events wh) (wh_staging_songs wh))"
    using insert_tables_warehouse[OF assms] by (rule songplay_insert_Inr)
  moreover have "\<And>e s. songplay_join_on e s \<longleftrightarrow> (\<exists>a d t.
                  e_artist e = Some a \<and> s_artist_name s = Some a
                  \<and> e_length e = Some d \<and> s_duration s = Some d
                  \<and> e_song e = Some t \<and> s_title s = Some t)"
    by (auto simp: songplay_join_on_def sql_eq_iff)
  ultimately show ?thesis
    by (auto simp: set_songplay_join)
qed

text \<open>
  Three events and two songs: the first event equals the first song on all three columns;
  the second differs from it in the duration only; the third has \<open>NULL\<close> in all three,
  as the second song has. One fact row results, for the first event.
\<close>

theorem songplays_rows_exact_join_witness:
  "snd (insert_tables (exec_query (\<lambda>t wh. Inr ()) (\<lambda>q wh. Inr wh)) wh_commit sample_warehouse) =
     Inr (sample_warehouse\<lparr>wh_songplays :=
       [\<lparr>start_time = Some 1000, user_id = Some 1, level = Some ''free'', song_id = Some ''SO1'',
         artist_id = Some ''AR1'', session_id = Some 7, location = None, user_agent = None\<rparr>]\<rparr>)
   \<and> (\<exists>s. (sample_events ! 0, s) \<in> set (songplay_join sample_events sample_songs))
   \<and> \<not> (\<exists>s. (sample_events ! 1, s) \<in> set (songplay_join sample_events sample_songs))
   \<and> \<not> (\<exists>s. (sample_events ! 2, s) \<in> set (songplay_join sample_events sample_songs))"
proof -
  let ?run = "insert_tables (exec_query (\<lambda>t wh. Inr ()) (\<lambda>q wh. Inr wh)) wh_commit sample_warehouse"
  let ?wh = "sample_warehouse\<lparr>wh_songplays :=
       [\<lparr>start_time = Some 1000, user_id = Some 1, level = Some ''free'', song_id = Some ''SO1'',
         artist_id = Some ''AR1'', session_id = Some 7, location = None, user_agent = None\<rparr>]\<rparr>"
  have r: "snd ?run = Inr ?wh"
    by (simp add: insert_tables_def insert_table_queries_def songplay_table_insert_def
        user_table_insert_def song_table_insert_def artist_table_insert_def time_table_insert_def
        wh_commit_def songplay_insert_def songplay_join_def songplay_join_on_def sql_eq_def
        songplay_select_def songplay_row_ok_def sample_warehouse_def sample_events_def sample_songs_def)
  then have h: "?run = (fst ?run, Inr ?wh)"
    by (metis prod.collapse)
  have ev: "wh_staging_events sample_warehouse = sample_events" "wh_staging_songs sample_warehouse = sample_songs"
    by (simp_all add: sample_warehouse_def)
  note c = songplays_rows_exact_join[OF h, unfolded ev, THEN conjunct2, rule_format]
  have "\<exists>s. (sample_events ! 0, s) \<in> set (songplay_join sample_events sample_songs)"
    by (subst c) (simp_all add: sample_events_def sample_songs_def)
  moreover have "\<not> (\<exists>s. (sample_events ! 1, s) \<in> set (songplay_join sample_events sample_songs))"
    by (subst c) (simp_all add: sample_events_def sample_songs_def)
  moreover have "\<not> (\<exists>s. (sample_events ! 2, s) \<in> set (songplay_join sample_events sample_songs))"
    by (subst c) (simp_all add: sample_events_def sample_songs_def)
  ultimately show ?thesis
    using r by blast
qed

section \<open>The provisioning functions\<close>

lemmas run_defs = call_def py_print_def sleep_def

lemmas account_defs =
  account_iam_def account_ec2_client_def account_ec2_resource_def account_redshift_def
  account_globals_def empty_account_def start_def provisioned_account_def roleless_account_def
  offline_account_def creating_account_def available_cluster_def

text \<open>
  C10. Whenever the request that creates the group raises, \<open>create_security_group\<close>
  prints the error in its \<open>except\<close> branch and then fails at \<open>return security_group\<close>
  with \<open>UnboundLocalError\<close>: it neither returns a group nor raises the error of the
  request.
\<close>

theorem create_security_group_unbound_local:
  assumes "ec2_create_security_group ec2_c ''Authorise redshift cluster access'' group_name (world s) = (Inl e, w)"
  shows "create_security_group ec2_c ec2_r group_name s =
           (Inl (UnboundLocalError ''security_group''),
            \<lparr>world = w,
             trace = trace s @ [Ec2CreateSecurityGroup ''Authorise redshift cluster access'' group_name,
                                Print [Text ''Error creating security group: '', Exn e]]\<rparr>)"
  using assms by (simp add: create_security_group_def run_defs)

text \<open>The group exists already: the request is refused as a duplicate.\<close>

theorem create_security_group_unbound_local_witness:
  "create_security_group account_ec2_client account_ec2_resource ''redshift_security_group''
       (start provisioned_account) =
     (Inl (UnboundLocalError ''security_group''),
      \<lparr>world = provisioned_account,
       trace = [Ec2CreateSecurityGroup ''Authorise redshift cluster access'' ''redshift_security_group'',
                Print [Text ''Error creating security group: '', Exn (ClientError ''InvalidGroup.Duplicate'')]]\<rparr>)"
proof -
  have h: "ec2_create_security_group account_ec2_client ''Authorise redshift cluster access''
             ''redshift_security_group'' (world (start provisioned_account))
           = (Inl (ClientError ''InvalidGroup.Duplicate''), provisioned_account)"
    by (simp add: account_defs)
  show ?thesis
    using create_security_group_unbound_local[OF h, of account_ec2_resource] by (simp add: start_def)
qed

text \<open>
  C5. Whenever the request that creates the role raises, as it does for a role that
  exists, \<open>create_iam_role\<close> prints the error and goes on: its next request attaches
  the policy. When that request and the reading of the role answer as they do for a role
  that exists, the function returns the ARN read back, having raised nothing.
\<close>

theorem create_iam_role_existing_role:
  assumes "iam_create_role iam_c name (world s) = (Inl e, w1)"
  shows "take (length (trace s) + 4) (trace (snd (create_iam_role iam_c name s))) =
           trace s @ [Print [Text (''Creating a new IAM Role: '' @ name)], IamCreateRole name, Print [Exn e],
                      IamAttachRolePolicy name AmazonS3ReadOnlyAccess]
       \<and> (\<forall>attached w2 md code got w3 r roleArn.
             iam_attach_role_policy iam_c name AmazonS3ReadOnlyAccess w1 = (Inr attached, w2)
             \<and> ResponseMetadata attached = Some md \<and> HTTPStatusCode md = Some code
             \<and> iam_get_role iam_c name w2 = (Inr got, w3) \<and> Role got = Some r \<and> Arn r = Some roleArn
             \<longrightarrow> create_iam_role iam_c name s =
                   (Inr roleArn,
                    \<lparr>world = w3,
                     trace = trace s @ [Print [Text (''Creating a new IAM Role: '' @ name)], IamCreateRole name,
                                        Print [Exn e], IamAttachRolePolicy name AmazonS3ReadOnlyAccess,
                                        IamGetRole name,
                                        Print [Text (''The ARN of the IAM role was successfully created!''
                                                     @ newline @ roleArn)]]\<rparr>))"
  using assms
  by (auto simp: create_iam_role_def run_defs Let_def split: prod.splits sum.splits option.splits)

text \<open>The role \<open>dwh_iam_role\<close> exists in the account.\<close>

theorem create_iam_role_existing_role_witness:
  "iam_create_role account_iam ''dwh_iam_role'' (world (start provisioned_account))
     = (Inl (ClientError ''EntityAlreadyExists''), provisioned_account)
   \<and> create_iam_role account_iam ''dwh_iam_role'' (start provisioned_account) =
       (Inr ''arn:aws:iam::123456789012:role/dwh_iam_role'',
        \<lparr>world = provisioned_account,
         trace = [Print [Text ''Creating a new IAM Role: dwh_iam_role''], IamCreateRole ''dwh_iam_role'',
                  Print [Exn (ClientError ''EntityAlreadyExists'')],
                  IamAttachRolePolicy ''dwh_iam_role'' AmazonS3ReadOnlyAccess, IamGetRole ''dwh_iam_role'',
                  Print [Text (''The ARN of the IAM role was successfully created!'' @ newline
                               @ ''arn:aws:iam::123456789012:role/dwh_iam_role'')]]\<rparr>)"
proof -
  have h: "iam_create_role account_iam ''dwh_iam_role'' (world (start provisioned_account))
             = (Inl (ClientError ''EntityAlreadyExists''), provisioned_account)"
    by (simp add: account_defs)
  have a: "iam_attach_role_policy account_iam ''dwh_iam_role'' AmazonS3ReadOnlyAccess provisioned_account
             = (Inr \<lparr>ResponseMetadata = Some \<lparr>HTTPStatusCode = Some 200\<rparr>\<rparr>, provisioned_account)"
    by (simp add: account_defs)
  have g: "iam_get_role account_iam ''dwh_iam_role'' provisioned_account
             = (Inr \<lparr>Role = Some \<lparr>Arn = Some ''arn:aws:iam::123456789012:role/dwh_iam_role''\<rparr>\<rparr>,
                provisioned_account)"
    by (simp add: account_defs)
  note c = create_iam_role_existing_role[OF h, THEN conjunct2, rule_format,
      of "\<lparr>ResponseMetadata = Some \<lparr>HTTPStatusCode = Some 200\<rparr>\<rparr>" provisioned_account
         "\<lparr>HTTPStatusCode = Some 200\<rparr>" 200
         "\<lparr>Role = Some \<lparr>Arn = Some ''arn:aws:iam::123456789012:role/dwh_iam_role''\<rparr>\<rparr>"
         provisioned_account "\<lparr>Arn = Some ''arn:aws:iam::123456789012:role/dwh_iam_role''\<rparr>"
         "''arn:aws:iam::123456789012:role/dwh_iam_role''"]
  have "create_iam_role account_iam ''dwh_iam_role'' (start provisioned_account) =
       (Inr ''arn:aws:iam::123456789012:role/dwh_iam_role'',
        \<lparr>world = provisioned_account,
         trace = trace (start provisioned_account) @
                 [Print [Text (''Creating a new IAM Role: '' @ ''dwh_iam_role'')], IamCreateRole ''dwh_iam_role'',
                  Print [Exn (ClientError ''EntityAlreadyExists'')],
                  IamAttachRolePolicy ''dwh_iam_role'' AmazonS3ReadOnlyAccess, IamGetRole ''dwh_iam_role'',
                  Print [Text (''The ARN of the IAM role was successfully created!'' @ newline
                               @ ''arn:aws:iam::123456789012:role/dwh_iam_role'')]]\<rparr>)"
    using a g by (intro c) simp
  then show ?thesis
    using h by (simp add: start_def)
qed

text \<open>
  C4. A status read in which the provider answers and the first cluster of the answer has
  the state \<open>st\<close>, the answer being a cluster descriptor as the provider gives it: a
  cluster whose state is \<open>available\<close> carries a non-empty endpoint address. When
  \<open>st\<close> is not \<open>available\<close>, \<open>get_cluster_info\<close> returns \<open>(st, None)\<close>. When
  \<open>st\<close> is \<open>available\<close>, it returns \<open>(st, endpoint)\<close> with a non-empty endpoint
  string, the address of the answer.
\<close>

theorem get_cluster_info_result:
  assumes "redshift_describe_clusters c ''dwhCluster'' (world s) = (Inr response, w)"
      and "Clusters response = Some (cl # cls)"
      and "ClusterStatus cl = Some st"
      and "st = ''available'' \<longrightarrow> (\<exists>ep a. Endpoint cl = Some ep \<and> Address ep = Some a \<and> a \<noteq> [])"
  shows "(st \<noteq> ''available'' \<longrightarrow> fst (get_cluster_info c s) = Inr (Some st, None))
       \<and> (st = ''available'' \<longrightarrow>
            (\<exists>a. a \<noteq> []
               \<and> (\<exists>ep. Endpoint cl = Some ep \<and> Address ep = Some a)
               \<and> fst (get_cluster_info c s) = Inr (Some st, Some a)))"
  using assms
  by (auto simp: get_cluster_info_def first_cluster_def run_defs Let_def
      split: prod.splits sum.splits option.splits)

text \<open>
  The cluster of the provisioned account is available and has an address; a cluster that
  is being created has the state \<open>creating\<close> and no endpoint.
\<close>

theorem get_cluster_info_result_witness:
  "fst (get_cluster_info account_redshift (start provisioned_account)) =
     Inr (Some ''available'', Some ''dwhcluster.example.us-west-2.redshift.amazonaws.com'')
   \<and> fst (get_cluster_info account_redshift (start creating_account)) = Inr (Some ''creating'', None)"
proof -
  let ?creating = "\<lparr>ClusterStatus = Some ''creating'', Endpoint = None\<rparr>"
  have h1: "redshift_describe_clusters account_redshift ''dwhCluster'' (world (start provisioned_account))
              = (Inr \<lparr>Clusters = Some [available_cluster]\<rparr>, provisioned_account)"
    by (simp add: account_redshift_def provisioned_account_def start_def)
  have h2: "redshift_describe_clusters account_redshift ''dwhCluster'' (world (start creating_account))
              = (Inr \<lparr>Clusters = Some [?creating]\<rparr>, creating_account)"
    by (simp add: account_redshift_def creating_account_def empty_account_def start_def)
  have c1: "Clusters \<lparr>Clusters = Some [available_cluster]\<rparr> = Some (available_cluster # [])"
    by simp
  have c2: "Clusters \<lparr>Clusters = Some [?creating]\<rparr> = Some (?creating # [])"
    by simp
  have s1: "ClusterStatus available_cluster = Some ''available''"
    by (simp add: available_cluster_def)
  have s2: "ClusterStatus ?creating = Some ''creating''"
    by simp
  have e1: "''available'' = ''available'' \<longrightarrow>
              (\<exists>ep a. Endpoint available_cluster = Some ep \<and> Address ep = Some a \<and> a \<noteq> [])"
    by (simp add: available_cluster_def)
  have e2: "''creating'' = ''available'' \<longrightarrow>
              (\<exists>ep a. Endpoint ?creating = Some ep \<and> Address ep = Some a \<and> a \<noteq> [])"
    by simp
  have "fst (get_cluster_info account_redshift (start provisioned_account)) =
     Inr (Some ''available'', Some ''dwhcluster.example.us-west-2.redshift.amazonaws.com'')"
    using get_cluster_info_result[OF h1 c1 s1 e1] by (auto simp: available_cluster_def)
  moreover have "fst (get_cluster_info account_redshift (start creating_account)) = Inr (Some ''creating'', None)"
    using get_cluster_info_result[OF h2 c2 s2 e2] by simp
  ultimately show ?thesis by simp
qed

text \<open>
  C2 (as the code has it). \<open>delete_security_group\<close> and \<open>delete_redshift_cluster\<close>
  never raise, whatever the provider answers, so not for a missing group or cluster
  either. \<open>delete_iam_role\<close> has no handler: it raises what \<open>detach_role_policy\<close>
  raises, else what \<open>delete_role\<close> raises, and returns the answer of
  \<open>delete_role\<close> only when both requests succeed.
\<close>

theorem delete_raises_only_from_role:
  "fst (delete_security_group ec2_r group_name s) = Inr ()
   \<and> fst (delete_redshift_cluster redshift_c cluster_identifier s') = Inr ()
   \<and> (\<forall>e w. iam_detach_role_policy iam_c name AmazonS3ReadOnlyAccess (world s'') = (Inl e, w)
          \<longrightarrow> fst (delete_iam_role iam_c name s'') = Inl e)
   \<and> (\<forall>detached w e w'. iam_detach_role_policy iam_c name AmazonS3ReadOnlyAccess (world s'') = (Inr detached, w)
            \<and> iam_delete_role iam_c name w = (Inl e, w')
          \<longrightarrow> fst (delete_iam_role iam_c name s'') = Inl e)
   \<and> (\<forall>detached w response w'. iam_detach_role_policy iam_c name AmazonS3ReadOnlyAccess (world s'') = (Inr detached, w)
            \<and> iam_delete_role iam_c name w = (Inr response, w')
          \<longrightarrow> fst (delete_iam_role iam_c name s'') = Inr response)"
  by (auto simp: delete_security_group_def delete_redshift_cluster_def delete_iam_role_def run_defs Let_def
      split: prod.splits sum.splits option.splits list.splits)

text \<open>
  In the empty account there is no group, no cluster and no role: the first two deletions
  return, the third raises. In the provisioned account the role exists and its deletion
  returns.
\<close>

theorem delete_raises_only_from_role_witness:
  "fst (delete_security_group account_ec2_resource ''redshift_security_group'' (start empty_account)) = Inr ()
   \<and> fst (delete_redshift_cluster account_redshift ''dwhCluster'' (start empty_account)) = Inr ()
   \<and> iam_detach_role_policy account_iam ''dwh_iam_role'' AmazonS3ReadOnlyAccess (world (start empty_account))
       = (Inl (ClientError ''NoSuchEntity''), empty_account)
   \<and> fst (delete_iam_role account_iam ''dwh_iam_role'' (start empty_account)) = Inl (ClientError ''NoSuchEntity'')
   \<and> fst (delete_iam_role account_iam ''dwh_iam_role'' (start provisioned_account))
       = Inr (Response ''ResponseMetadata'')"
proof -
  have d0: "iam_detach_role_policy account_iam ''dwh_iam_role'' AmazonS3ReadOnlyAccess (world (start empty_account))
       = (Inl (ClientError ''NoSuchEntity''), empty_account)"
    by (simp add: account_defs)
  have d1: "iam_detach_role_policy account_iam ''dwh_iam_role'' AmazonS3ReadOnlyAccess (world (start provisioned_account))
       = (Inr (Response ''ResponseMetadata''), provisioned_account)"
    by (simp add: account_defs)
  have d2: "iam_delete_role account_iam ''dwh_iam_role'' provisioned_account
       = (Inr (Response ''ResponseMetadata''), provisioned_account\<lparr>roles := []\<rparr>)"
    by (simp add: account_defs)
  note t0 = delete_raises_only_from_role[of account_ec2_resource "''redshift_security_group''" "start empty_account"
      account_redshift "''dwhCluster''" "start empty_account" account_iam "''dwh_iam_role''" "start empty_account"]
  note t1 = delete_raises_only_from_role[of account_ec2_resource "''redshift_security_group''" "start empty_account"
      account_redshift "''dwhCluster''" "start empty_account" account_iam "''dwh_iam_role''" "start provisioned_account"]
  show ?thesis
    using t0 t1 d0 d1 d2 by blast
qed

text \<open>
  C2 as stated fails for the role: deleting a role that does not exist raises the
  provider's \<open>NoSuchEntity\<close> to the caller.
\<close>

theorem delete_iam_role_missing_role_raises:
  "''dwh_iam_role'' \<notin> set (roles empty_account)
   \<and> fst (delete_iam_role account_iam ''dwh_iam_role'' (start empty_account)) = Inl (ClientError ''NoSuchEntity'')"
  by (simp add: delete_iam_role_def run_defs account_defs AmazonS3ReadOnlyAccess_def)

lemma create_iam_role_trace:
  "create_iam_role iam_c name s = (r, s') \<Longrightarrow>
     \<exists>new. trace s' = trace s @ new \<and> \<not> list_ex opens_access new"
  by (auto simp: create_iam_role_def run_defs Let_def split: prod.splits sum.splits option.splits)

lemma create_security_group_Inr:
  "create_security_group ec2_c ec2_r name s = (Inr sg, s') \<Longrightarrow>
     \<exists>response. ec2_create_security_group ec2_c ''Authorise redshift cluster access'' name (world s)
                  = (Inr response, world s')
       \<and> GroupId response = Some (sg_id sg)
       \<and> trace s' = trace s @ [Ec2CreateSecurityGroup ''Authorise redshift cluster access'' name,
            Print [Text (''Security group '' @ sg_id sg @ '' created successfully.'')],
            Print [Text ''Security group object: '', SgObj sg]]"
  by (auto simp: create_security_group_def run_defs Let_def split: prod.splits sum.splits option.splits)

lemma get_public_ip_trace:
  "get_public_ip get s = (r, s') \<Longrightarrow>
     \<exists>new. trace s' = trace s @ new \<and> \<not> list_ex opens_access new"
  by (auto simp: get_public_ip_def run_defs Let_def split: prod.splits sum.splits option.splits if_splits)

text \<open>
  C3 (as the code has it). In every run of \<open>init\<close> that reaches the discovery of the
  public address and gets none from it (\<open>None\<close>, or an empty string), \<open>init\<close> raises
  \<open>Exception("Failed to retrieve public IP address")\<close> without having authorised any
  ingress or created a cluster. The security group, though, has been created by then:
  the request that creates it was sent and answered before the address was looked up,
  and the group stays, without an ingress rule.
\<close>

theorem init_without_public_ip:
  assumes "create_iam_role (iam g) ''dwh_iam_role'' s0 = (Inr iam_role, s1)"
      and "create_security_group (ec2_client g) (ec2_resource g) ''redshift_security_group'' s1 = (Inr sec_group, s2)"
      and "get_public_ip (requests_get g) s2 = (Inr public_ip, s3)"
      and "public_ip = None \<or> public_ip = Some []"
  shows "init g s0 = (Inl (PyException ''Failed to retrieve public IP address''), s3)
       \<and> \<not> list_ex opens_access (drop (length (trace s0)) (trace s3))
       \<and> (\<exists>response. ec2_create_security_group (ec2_client g) ''Authorise redshift cluster access''
                          ''redshift_security_group'' (world s1) = (Inr response, world s2)
              \<and> GroupId response = Some (sg_id sec_group))
       \<and> Ec2CreateSecurityGroup ''Authorise redshift cluster access'' ''redshift_security_group''
            \<in> set (drop (length (trace s0)) (trace s3))"
proof -
  from assms(4) have nt: "\<not> truthy public_ip"
    by (auto simp: truthy_def)
  have res: "init g s0 = (Inl (PyException ''Failed to retrieve public IP address''), s3)"
    using assms(1-3) nt by (simp add: init_def)
  obtain n1 where n1: "trace s1 = trace s0 @ n1" "\<not> list_ex opens_access n1"
    using create_iam_role_trace[OF assms(1)] by blast
  obtain response where sg:
     "ec2_create_security_group (ec2_client g) ''Authorise redshift cluster access''
         ''redshift_security_group'' (world s1) = (Inr response, world s2)"
     "GroupId response = Some (sg_id sec_group)"
     "trace s2 = trace s1 @ [Ec2CreateSecurityGroup ''Authorise redshift cluster access'' ''redshift_security_group'',
            Print [Text (''Security group '' @ sg_id sec_group @ '' created successfully.'')],
            Print [Text ''Security group object: '', SgObj sec_group]]"
    using create_security_group_Inr[OF assms(2)] by blast
  obtain n3 where n3: "trace s3 = trace s2 @ n3" "\<not> list_ex opens_access n3"
    using get_public_ip_trace[OF assms(3)] by blast
  have new: "drop (length (trace s0)) (trace s3) =
       n1 @ [Ec2CreateSecurityGroup ''Authorise redshift cluster access'' ''redshift_security_group'',
            Print [Text (''Security group '' @ sg_id sec_group @ '' created successfully.'')],
            Print [Text ''Security group object: '', SgObj sec_group]] @ n3"
    using n1(1) sg(3) n3(1) by simp
  show ?thesis
    using res sg(1,2) n1(2) n3(2) unfolding new by auto
qed

text \<open>
  The address service is out of reach of an otherwise empty account: the role and the
  group are created, the lookup fails, \<open>init\<close> raises.
\<close>

theorem init_without_public_ip_witness:
  "fst (get_public_ip (requests_get (account_globals ''dwhCluster''))
          (snd (create_security_group account_ec2_client account_ec2_resource ''redshift_security_group''
             (snd (create_iam_role account_iam ''dwh_iam_role'' (start offline_account)))))) = Inr None
   \<and> fst (init (account_globals ''dwhCluster'') (start offline_account))
       = Inl (PyException ''Failed to retrieve public IP address'')
   \<and> \<not> list_ex opens_access (trace (snd (init (account_globals ''dwhCluster'') (start offline_account))))
   \<and> Ec2CreateSecurityGroup ''Authorise redshift cluster access'' ''redshift_security_group''
        \<in> set (trace (snd (init (account_globals ''dwhCluster'') (start offline_account))))"
proof -
  let ?g = "account_globals ''dwhCluster''"
  let ?r1 = "create_iam_role account_iam ''dwh_iam_role'' (start offline_account)"
  let ?r2 = "create_security_group account_ec2_client account_ec2_resource ''redshift_security_group'' (snd ?r1)"
  let ?r3 = "get_public_ip (requests_get ?g) (snd ?r2)"
  have g: "iam ?g = account_iam" "ec2_client ?g = account_ec2_client" "ec2_resource ?g = account_ec2_resource"
    by (simp_all add: account_globals_def)
  have f1: "fst ?r1 = Inr ''arn:aws:iam::123456789012:role/dwh_iam_role''"
    by (simp add: create_iam_role_def run_defs account_defs AmazonS3ReadOnlyAccess_def Let_def)
  have w1: "world (snd ?r1) = offline_account\<lparr>roles := [''dwh_iam_role'']\<rparr>"
    by (simp add: create_iam_role_def run_defs account_defs AmazonS3ReadOnlyAccess_def Let_def)
  have f2: "fst ?r2 = Inr (SecurityGroup ''sg-redshift_security_group'')"
    unfolding create_security_group_def run_defs w1
    by (simp add: account_ec2_client_def offline_account_def empty_account_def Let_def)
  have w2: "online (world (snd ?r2)) = False"
    unfolding create_security_group_def run_defs w1
    by (simp add: account_ec2_client_def offline_account_def empty_account_def Let_def)
  have f3: "fst ?r3 = Inr None"
    unfolding get_public_ip_def run_defs by (simp add: w2 account_globals_def)
  have h1: "?r1 = (Inr ''arn:aws:iam::123456789012:role/dwh_iam_role'', snd ?r1)"
    using f1 by (metis prod.collapse)
  have h2: "?r2 = (Inr (SecurityGroup ''sg-redshift_security_group''), snd ?r2)"
    using f2 by (metis prod.collapse)
  have h3: "?r3 = (Inr None, snd ?r3)"
    using f3 by (metis prod.collapse)
  note c = init_without_public_ip[of ?g, unfolded g, OF h1 h2 h3]
  have i: "init ?g (start offline_account) = (Inl (PyException ''Failed to retrieve public IP address''), snd ?r3)"
    using c by simp
  have t0: "trace (start offline_account) = []"
    by (simp add: start_def)
  have "\<not> list_ex opens_access (trace (snd ?r3))"
       "Ec2CreateSecurityGroup ''Authorise redshift cluster access'' ''redshift_security_group''
          \<in> set (trace (snd ?r3))"
    using c t0 by simp_all
  then show ?thesis
    using f3 i by simp
qed

text \<open>
  C3 as stated fails in its second part: when \<open>init\<close> reports the failure, the group
  exists in the account.
\<close>

theorem init_offline_leaves_group:
  "fst (init (account_globals ''dwhCluster'') (start offline_account))
     = Inl (PyException ''Failed to retrieve public IP address'')
   \<and> groups (world (snd (init (account_globals ''dwhCluster'') (start offline_account))))
     = [(''redshift_security_group'', ''sg-redshift_security_group'')]"
  by (simp add: init_def create_iam_role_def create_security_group_def get_public_ip_def truthy_def
      run_defs account_defs AmazonS3ReadOnlyAccess_def Let_def)

section \<open>The teardown and the status read\<close>

lemma actions_append: "actions (xs @ ys) = actions xs @ actions ys"
  by (simp add: actions_def)



lemma delete_iam_role_Inr:
  "delete_iam_role iam_c name s = (Inr response, s') \<Longrightarrow>
     \<exists>new. trace s' = trace s @ new
       \<and> actions new = [IamDetachRolePolicy name AmazonS3ReadOnlyAccess, IamDeleteRole name]"
  by (auto simp: delete_iam_role_def run_defs actions_def Let_def split: prod.splits sum.splits)

lemma delete_iam_role_Inl:
  "delete_iam_role iam_c name s = (Inl e, s') \<Longrightarrow>
     \<exists>new. trace s' = trace s @ new
       \<and> (actions new = [IamDetachRolePolicy name AmazonS3ReadOnlyAccess]
          \<or> actions new = [IamDetachRolePolicy name AmazonS3ReadOnlyAccess, IamDeleteRole name])"
  by (auto simp: delete_iam_role_def run_defs actions_def Let_def split: prod.splits sum.splits)

lemma delete_redshift_cluster_run:
  "\<exists>s' new. delete_redshift_cluster c i s = (Inr (), s') \<and> trace s' = trace s @ new
     \<and> actions new = [RedshiftDeleteCluster i True]"
  by (auto simp: delete_redshift_cluster_def run_defs actions_def Let_def split: prod.splits sum.splits)

lemma delete_security_group_run:
  "\<exists>s' new. delete_security_group r name s = (Inr (), s') \<and> trace s' = trace s @ new
     \<and> actions new =
         Ec2SecurityGroupsFilter name #
           (case fst (ec2_security_groups_filter r name (world s)) of
              Inl e \<Rightarrow> []
            | Inr [] \<Rightarrow> []
            | Inr (sg # others) \<Rightarrow> [SgDelete sg name])"
  by (auto simp: delete_security_group_def run_defs actions_def Let_def split: prod.splits sum.splits list.splits)

text \<open>
  C8 (as the code has it). Whenever the deletion of the role returns, \<open>delete\<close> does
  exactly this, in this order: detach the policy and delete the role, request the deletion
  of the cluster named by \<open>CLUSTER_ID\<close>, sleep 5 seconds, look the security group up by
  name and, when one is found, delete the first one found; and it returns. Whenever the
  deletion of the role raises (it has no handler), \<open>delete\<close> raises the same error at
  once: no cluster deletion is requested, there is no pause, the group is not touched.
\<close>

theorem delete_sequence:
  "(\<forall>response s1. delete_iam_role (iam g) ''dwh_iam_role'' s = (Inr response, s1) \<longrightarrow>
      (\<exists>s2. delete_redshift_cluster (redshift g) (CLUSTER_ID g) s1 = (Inr (), s2)
         \<and> fst (delete g s) = Inr ()
         \<and> actions (drop (length (trace s)) (trace (snd (delete g s)))) =
             [IamDetachRolePolicy ''dwh_iam_role'' AmazonS3ReadOnlyAccess, IamDeleteRole ''dwh_iam_role'',
              RedshiftDeleteCluster (CLUSTER_ID g) True, Sleep 5,
              Ec2SecurityGroupsFilter ''redshift_security_group'']
             @ (case fst (ec2_security_groups_filter (ec2_resource g) ''redshift_security_group'' (world s2)) of
                  Inl e \<Rightarrow> []
                | Inr [] \<Rightarrow> []
                | Inr (sg # others) \<Rightarrow> [SgDelete sg ''redshift_security_group''])))
   \<and> (\<forall>e s1. delete_iam_role (iam g) ''dwh_iam_role'' s = (Inl e, s1) \<longrightarrow>
        delete g s = (Inl e, s1)
        \<and> (actions (drop (length (trace s)) (trace s1)) = [IamDetachRolePolicy ''dwh_iam_role'' AmazonS3ReadOnlyAccess]
           \<or> actions (drop (length (trace s)) (trace s1)) =
               [IamDetachRolePolicy ''dwh_iam_role'' AmazonS3ReadOnlyAccess, IamDeleteRole ''dwh_iam_role'']))"
proof (intro conjI allI impI)
  fix response s1
  assume r: "delete_iam_role (iam g) ''dwh_iam_role'' s = (Inr response, s1)"
  obtain n1 where n1: "trace s1 = trace s @ n1"
      "actions n1 = [IamDetachRolePolicy ''dwh_iam_role'' AmazonS3ReadOnlyAccess, IamDeleteRole ''dwh_iam_role'']"
    using delete_iam_role_Inr[OF r] by blast
  obtain s2 n2 where n2: "delete_redshift_cluster (redshift g) (CLUSTER_ID g) s1 = (Inr (), s2)"
      "trace s2 = trace s1 @ n2" "actions n2 = [RedshiftDeleteCluster (CLUSTER_ID g) True]"
    using delete_redshift_cluster_run by blast
  obtain s3 n3 where n3:
      "delete_security_group (ec2_resource g) ''redshift_security_group'' (sleep 5 s2) = (Inr (), s3)"
      "trace s3 = trace (sleep 5 s2) @ n3"
      "actions n3 = Ec2SecurityGroupsFilter ''redshift_security_group'' #
           (case fst (ec2_security_groups_filter (ec2_resource g) ''redshift_security_group'' (world (sleep 5 s2))) of
              Inl e \<Rightarrow> []
            | Inr [] \<Rightarrow> []
            | Inr (sg # others) \<Rightarrow> [SgDelete sg ''redshift_security_group''])"
    using delete_security_group_run by blast
  have d: "delete g s = (Inr (), s3)"
    using r n2(1) n3(1) by (simp add: delete_def)
  have t: "trace s3 = trace s @ n1 @ n2 @ [Sleep 5] @ n3"
    using n1(1) n2(2) n3(2) by (simp add: sleep_def)
  have w: "world (sleep 5 s2) = world s2"
    by (simp add: sleep_def)
  show "\<exists>s2. delete_redshift_cluster (redshift g) (CLUSTER_ID g) s1 = (Inr (), s2)
         \<and> fst (delete g s) = Inr ()
         \<and> actions (drop (length (trace s)) (trace (snd (delete g s)))) =
             [IamDetachRolePolicy ''dwh_iam_role'' AmazonS3ReadOnlyAccess, IamDeleteRole ''dwh_iam_role'',
              RedshiftDeleteCluster (CLUSTER_ID g) True, Sleep 5,
              Ec2SecurityGroupsFilter ''redshift_security_group'']
             @ (case fst (ec2_security_groups_filter (ec2_resource g) ''redshift_security_group'' (world s2)) of
                  Inl e \<Rightarrow> []
                | Inr [] \<Rightarrow> []
                | Inr (sg # others) \<Rightarrow> [SgDelete sg ''redshift_security_group''])"
    using n2(1) d t n1(2) n2(3) n3(3) w
    by (intro exI[of _ s2]) (simp add: actions_append, simp add: actions_def)
next
  fix e s1
  assume r: "delete_iam_role (iam g) ''dwh_iam_role'' s = (Inl e, s1)"
  then show "delete g s = (Inl e, s1)"
    by (simp add: delete_def)
  from delete_iam_role_Inl[OF r]
  show "actions (drop (length (trace s)) (trace s1)) = [IamDetachRolePolicy ''dwh_iam_role'' AmazonS3ReadOnlyAccess]
           \<or> actions (drop (length (trace s)) (trace s1)) =
               [IamDetachRolePolicy ''dwh_iam_role'' AmazonS3ReadOnlyAccess, IamDeleteRole ''dwh_iam_role'']"
    by auto
qed









text \<open>
  The provisioned account: the role, the cluster and the group are deleted, in the order
  of the code.
\<close>

theorem delete_sequence_witness:
  "fst (delete (account_globals ''dwhCluster'') (start provisioned_account)) = Inr ()
   \<and> actions (trace (snd (delete (account_globals ''dwhCluster'') (start provisioned_account)))) =
       [IamDetachRolePolicy ''dwh_iam_role'' AmazonS3ReadOnlyAccess, IamDeleteRole ''dwh_iam_role'',
        RedshiftDeleteCluster ''dwhCluster'' True, Sleep 5,
        Ec2SecurityGroupsFilter ''redshift_security_group'',
        SgDelete (SecurityGroup ''sg-0a1b'') ''redshift_security_group'']"
proof -
  let ?g = "account_globals ''dwhCluster''"
  let ?s = "start provisioned_account"
  let ?r1 = "delete_iam_role account_iam ''dwh_iam_role'' ?s"
  let ?r2 = "delete_redshift_cluster account_redshift ''dwhCluster'' (snd ?r1)"
  have gi: "iam ?g = account_iam" "CLUSTER_ID ?g = ''dwhCluster''" "redshift ?g = account_redshift"
      "ec2_resource ?g = account_ec2_resource"
    by (simp_all add: account_globals_def)
  have f: "fst ?r1 = Inr (Response ''ResponseMetadata'')"
    by (simp add: delete_iam_role_def run_defs account_iam_def provisioned_account_def start_def)
  then have h: "?r1 = (Inr (Response ''ResponseMetadata''), snd ?r1)"
    by (metis prod.collapse)
  have w1: "groups (world (snd ?r1)) = [(''redshift_security_group'', ''sg-0a1b'')]"
    by (simp add: delete_iam_role_def run_defs account_iam_def provisioned_account_def start_def)
  have w2: "groups (world (snd ?r2)) = [(''redshift_security_group'', ''sg-0a1b'')]"
    unfolding delete_redshift_cluster_def run_defs
    by (simp add: w1 account_redshift_def split: prod.splits sum.splits)
  have fl: "fst (ec2_security_groups_filter account_ec2_resource ''redshift_security_group'' (world (snd ?r2)))
              = Inr [SecurityGroup ''sg-0a1b'']"
    by (simp add: account_ec2_resource_def w2)
  have t0: "length (trace ?s) = 0"
    by (simp add: start_def)
  from delete_sequence[of ?g ?s, unfolded gi t0 drop_0, THEN conjunct1, rule_format, OF h]
  obtain s2 where s2: "?r2 = (Inr (), s2)"
      "fst (delete ?g ?s) = Inr ()"
      "actions (trace (snd (delete ?g ?s))) =
             [IamDetachRolePolicy ''dwh_iam_role'' AmazonS3ReadOnlyAccess, IamDeleteRole ''dwh_iam_role'',
              RedshiftDeleteCluster ''dwhCluster'' True, Sleep 5,
              Ec2SecurityGroupsFilter ''redshift_security_group'']
             @ (case fst (ec2_security_groups_filter account_ec2_resource ''redshift_security_group'' (world s2)) of
                  Inl e \<Rightarrow> []
                | Inr [] \<Rightarrow> []
                | Inr (sg # others) \<Rightarrow> [SgDelete sg ''redshift_security_group''])"
    by blast
  have "s2 = snd ?r2"
    using s2(1) by simp
  then show ?thesis
    using s2(2,3) fl by simp
qed

text \<open>
  C8 as stated fails when the role is gone while the cluster and the group are still
  there: \<open>delete\<close> raises after its first request and leaves the cluster in place.
\<close>

theorem delete_stops_without_role:
  "fst (delete (account_globals ''dwhCluster'') (start roleless_account)) = Inl (ClientError ''NoSuchEntity'')
   \<and> actions (trace (snd (delete (account_globals ''dwhCluster'') (start roleless_account))))
     = [IamDetachRolePolicy ''dwh_iam_role'' AmazonS3ReadOnlyAccess]
   \<and> clusters (world (snd (delete (account_globals ''dwhCluster'') (start roleless_account))))
     = clusters roleless_account"
  by (simp add: delete_def delete_iam_role_def run_defs account_defs actions_def)

end
